theory Spec2Isabelle
  imports Complex_Main "HOL-Library.Word" "HOL-Library.AList" "HOL-Library.Sublist"
begin

section \<open>Video service: upload validation and the processing pipeline\<close>

text \<open>
  The development embeds four source files of the video service:
  \<^item> \<^verbatim>\<open>src/utils/validators.py\<close>: \<^verbatim>\<open>validate_video_file\<close>;
  \<^item> \<^verbatim>\<open>src/models/video.py\<close>: \<^verbatim>\<open>Video\<close>, \<^verbatim>\<open>VideoVariant\<close>, \<^verbatim>\<open>VideoMetadata\<close>, \<^verbatim>\<open>add_variant\<close>;
  \<^item> \<^verbatim>\<open>src/services/video_processing_service.py\<close>: \<^verbatim>\<open>retry\<close>, \<^verbatim>\<open>process_video\<close>,
    \<^verbatim>\<open>validate_format\<close>, \<^verbatim>\<open>scan_security\<close>, \<^verbatim>\<open>generate_variant\<close>;
  \<^item> \<^verbatim>\<open>src/services/storage_service.py\<close>: \<^verbatim>\<open>upload_variant\<close>.

  Python exceptions are values of type \<open>exn\<close> and a call that may raise returns
  \<open>exn + 'a\<close>. Objects mutated in place (the \<^verbatim>\<open>Video\<close>, the outside world) are passed
  in and returned. Calls that leave the program (libmagic, ffprobe, the virus scanner,
  ffmpeg, the object store) are fields of an environment record; every such call is
  appended to a call log, and an outcome that may change from one call to the next is a
  function of the log so far. Awaiting a coroutine is the call of the coroutine;
  awaiting the tuple that a plain function returns raises \<^verbatim>\<open>TypeError\<close>, as it does in
  Python. Cancellation of the running task is not modelled. Timestamps and the per-video
  metrics dictionary are left out.
\<close>

subsection \<open>Bytes, strings and exceptions\<close>

type_synonym byte = "8 word"
type_synonym bytes = "byte list"

text \<open>
  The exceptions are subclasses of \<^verbatim>\<open>Exception\<close>, which every \<^verbatim>\<open>except Exception\<close> of the
  source catches. \<^verbatim>\<open>asyncio.CancelledError\<close> is none, and is not among them.
\<close>

datatype exn =
    ValueError string
  | TypeError string
  | ValidationError string
  | ExternalError string

fun str_exn :: "exn \<Rightarrow> string" where
  "str_exn (ValueError m) = m"
| "str_exn (TypeError m) = m"
| "str_exn (ValidationError m) = m"
| "str_exn (ExternalError m) = m"

text \<open>\<^verbatim>\<open>bytes.startswith\<close> and \<^verbatim>\<open>bytes.endswith\<close> for one candidate.\<close>

definition startswith :: "'a list \<Rightarrow> 'a list \<Rightarrow> bool" where
  "startswith xs p = (take (length p) xs = p)"

definition endswith :: "'a list \<Rightarrow> 'a list \<Rightarrow> bool" where
  "endswith xs p = (length p \<le> length xs \<and> drop (length xs - length p) xs = p)"

text \<open>\<^verbatim>\<open>str.rfind\<close>: the index of the last occurrence, \<open>-1\<close> when there is none.\<close>

fun rfind :: "char \<Rightarrow> string \<Rightarrow> int" where
  "rfind ch [] = - 1"
| "rfind ch (x # xs) =
     (let r = rfind ch xs
      in if 0 \<le> r then r + 1 else if x = ch then 0 else - 1)"

text \<open>
  A Python string is its UTF-8 encoding. \<^verbatim>\<open>str.lower\<close> knows all of Unicode and is a
  parameter, \<open>lower\<close>, of the functions that call it. On a string of ASCII
  characters it is \<open>ascii_lower\<close>, which the examples take for it.
\<close>

definition ascii_lower_char :: "char \<Rightarrow> char" where
  "ascii_lower_char c =
     (let n = (of_char c :: nat) in if 65 \<le> n \<and> n \<le> 90 then char_of (n + 32) else c)"

definition ascii_lower :: "string \<Rightarrow> string" where
  "ascii_lower s = map ascii_lower_char s"

subsection \<open>\<^verbatim>\<open>validators.py\<close>\<close>

definition ALLOWED_VIDEO_FORMATS :: "string list" where
  "ALLOWED_VIDEO_FORMATS = [''.mp4'', ''.mov'', ''.avi'', ''.mkv'']"

definition MAX_VIDEO_SIZE_BYTES :: nat where
  "MAX_VIDEO_SIZE_BYTES = 5368709120"

definition VALID_MIME_TYPES :: "string list" where
  "VALID_MIME_TYPES =
     [''video/mp4'', ''video/quicktime'', ''video/x-msvideo'', ''video/x-matroska'']"

text \<open>The byte literals \<^verbatim>\<open>b'mdat'\<close> and \<^verbatim>\<open>b'moov'\<close>.\<close>

definition b_mdat :: bytes where
  "b_mdat = [0x6D, 0x64, 0x61, 0x74]"

definition b_moov :: bytes where
  "b_moov = [0x6D, 0x6F, 0x6F, 0x76]"

text \<open>Values of the metadata dictionary that \<^verbatim>\<open>validate_video_file\<close> returns.\<close>

datatype mval = MInt nat | MStr string

type_synonym mdict = "(string \<times> mval) list"

text \<open>
  \<^verbatim>\<open>file_ext = filename[filename.rfind('.'):].lower() if '.' in filename else ''\<close>
\<close>

definition file_ext_of :: "(string \<Rightarrow> string) \<Rightarrow> string \<Rightarrow> string" where
  "file_ext_of lower filename =
     (if CHR ''.'' \<in> set filename
      then lower (drop (nat (rfind (CHR ''.'') filename)) filename)
      else [])"

text \<open>
  \<^verbatim>\<open>validate_video_file(file_content, filename, strict_validation)\<close>. The first
  argument is \<^verbatim>\<open>magic.from_buffer(_, mime=True)\<close>, which may raise, the second is
  \<^verbatim>\<open>str.lower\<close>. The operations inside the strict block cannot raise, so its \<^verbatim>\<open>except\<close>
  branch has no counterpart.
\<close>

definition validate_video_file ::
  "(bytes \<Rightarrow> exn + string) \<Rightarrow> (string \<Rightarrow> string) \<Rightarrow> bytes \<Rightarrow> string \<Rightarrow> bool
     \<Rightarrow> bool \<times> string \<times> mdict" where
  "validate_video_file magic lower file_content filename strict_validation =
     (if file_content = [] then (False, ''Empty file content'', [])
      else
        let file_size = length file_content in
        if file_size > MAX_VIDEO_SIZE_BYTES
        then (False, ''File size exceeds maximum limit of 5.0GB'', [(''size'', MInt file_size)])
        else
          let file_ext = file_ext_of lower filename in
          if file_ext \<notin> set ALLOWED_VIDEO_FORMATS
          then (False,
                ''Unsupported file format. Allowed formats: .mp4, .mov, .avi, .mkv'',
                [(''extension'', MStr file_ext)])
          else
            case magic (take 2048 file_content) of
              Inl e \<Rightarrow> (False, ''Failed to detect MIME type: '' @ str_exn e, [])
            | Inr mime_type \<Rightarrow>
                if mime_type \<notin> set VALID_MIME_TYPES
                then (False, ''Invalid MIME type: '' @ mime_type,
                      [(''mime_type'', MStr mime_type)])
                else if \<not> (startswith file_content [0, 0, 0] \<or> startswith file_content [0, 0, 1])
                then (False, ''Invalid video file header'', [])
                else
                  let metadata = [(''size'', MInt file_size), (''extension'', MStr file_ext),
                                  (''mime_type'', MStr mime_type)] in
                  if strict_validation \<and> file_size < 1024
                  then (False, ''File too small to be a valid video'', metadata)
                  else if strict_validation \<and>
                          \<not> (\<exists>term \<in> set [b_mdat, b_moov].
                               endswith (drop (length file_content - 32) file_content) term)
                  then (False, ''Invalid video file termination'', metadata)
                  else (True, [], metadata))"

subsection \<open>\<^verbatim>\<open>models/video.py\<close>\<close>

definition VIDEO_STATUS :: "string list" where
  "VIDEO_STATUS =
     [''pending'', ''scanning'', ''processing'', ''converting'', ''ready'', ''failed'']"

definition VIDEO_VARIANTS :: "string list" where
  "VIDEO_VARIANTS = [''original'', ''hd_1080p'', ''sd_720p'', ''mobile_480p'', ''thumbnail'']"

definition MODEL_VIDEO_FORMATS :: "string list" where
  "MODEL_VIDEO_FORMATS = [''mp4'', ''mov'', ''avi'', ''webm'']"

definition ALLOWED_VIDEO_CODECS :: "string list" where
  "ALLOWED_VIDEO_CODECS = [''h264'', ''h265'', ''vp8'', ''vp9'']"

definition MIN_FPS :: real where
  "MIN_FPS = 24"

definition MAX_FPS :: real where
  "MAX_FPS = 240"

text \<open>Python floats are read as reals; they are only compared with constants.\<close>

record video_metadata =
  duration :: real
  width :: int
  height :: int
  fps :: real
  codec :: string
  size_bytes :: nat
  format :: string
  checksum :: string
  virus_scanned :: bool
  content_safe :: bool

text \<open>
  The constructor of \<^verbatim>\<open>VideoMetadata\<close>: the \<^verbatim>\<open>Field\<close> bounds and the two validators,
  which lower-case \<^verbatim>\<open>codec\<close> and \<^verbatim>\<open>format\<close> with \<^verbatim>\<open>str.lower\<close>, the first argument.
\<close>

definition VideoMetadata ::
  "(string \<Rightarrow> string) \<Rightarrow> real \<Rightarrow> int \<Rightarrow> int \<Rightarrow> real \<Rightarrow> string \<Rightarrow> nat \<Rightarrow> string \<Rightarrow> string
     \<Rightarrow> bool \<Rightarrow> bool \<Rightarrow> exn + video_metadata" where
  "VideoMetadata lower d w h f c s fmt ck vs cs =
     (if 0 < d \<and> 0 < w \<and> w < 7680 \<and> 0 < h \<and> h < 4320 \<and> MIN_FPS \<le> f \<and> f \<le> MAX_FPS
         \<and> lower c \<in> set ALLOWED_VIDEO_CODECS \<and> 0 < s \<and> s \<le> MAX_VIDEO_SIZE_BYTES
         \<and> lower fmt \<in> set MODEL_VIDEO_FORMATS
      then Inr \<lparr>duration = d, width = w, height = h, fps = f, codec = lower c,
                size_bytes = s, format = lower fmt, checksum = ck,
                virus_scanned = vs, content_safe = cs\<rparr>
      else Inl (ValidationError ''VideoMetadata''))"

text \<open>One value of \<^verbatim>\<open>VARIANT_CONFIGS\<close>.\<close>

record variant_config =
  cfg_width :: int
  cfg_height :: int
  cfg_bitrate :: string
  cfg_fps :: int

text \<open>The \<^verbatim>\<open>delivery_config\<close> dictionary; \<open>provider\<close> may be missing.\<close>

record delivery =
  provider :: "string option"
  dc_quality :: string
  dc_config :: variant_config

record video_variant =
  quality :: string
  url :: string
  metadata :: video_metadata
  cdn_provider :: string
  delivery_config :: delivery

datatype hist_entry =
    HUploadStarted
  | HFileValidation mdict
  | HVariantAdded video_metadata

text \<open>
  The fields of \<^verbatim>\<open>Video\<close> that the pipeline reads or writes. \<^verbatim>\<open>processing_history\<close> is a
  Python dict: an assignment replaces the value of a key that is present and appends a
  new key otherwise, which is \<^const>\<open>AList.update\<close>.
\<close>

record video =
  video_id :: string
  status :: string
  variants :: "video_variant list"
  processing_history :: "(string \<times> hist_entry) list"

text \<open>
  \<^verbatim>\<open>Video.add_variant\<close>. The validator of \<^verbatim>\<open>VideoVariant.quality\<close> repeats the test of the
  first line and cannot fail after it.
\<close>

definition add_variant ::
  "video \<Rightarrow> string \<Rightarrow> string \<Rightarrow> video_metadata \<Rightarrow> delivery \<Rightarrow> exn + video_variant \<times> video" where
  "add_variant self q u md dc =
     (if q \<notin> set VIDEO_VARIANTS then Inl (ValueError (''Invalid quality variant: '' @ q))
      else
        let variant = \<lparr>quality = q, url = u, metadata = md,
                       cdn_provider = (case provider dc of None \<Rightarrow> ''default'' | Some p \<Rightarrow> p),
                       delivery_config = dc\<rparr>
        in Inr (variant,
                self\<lparr>variants := variants self @ [variant],
                     processing_history :=
                       AList.update (''variant_'' @ q @ ''_added'') (HVariantAdded md)
                         (processing_history self)\<rparr>))"

text \<open>
  Modelled from the spec: \<^verbatim>\<open>Video.update_status\<close>, which \<^verbatim>\<open>process_video\<close> calls and the
  class \<^verbatim>\<open>Video\<close> does not define. The specification's \<^verbatim>\<open>status\<close> field "reflects the
  furthest-completed or current pipeline stage" and its repository operation is
  \<^verbatim>\<open>updateStatus(id, status, stageMetadata?)\<close>; the repository's \<^verbatim>\<open>update_status\<close>
  writes a history entry only when stage metadata is passed. Every call in
  \<^verbatim>\<open>process_video\<close> passes the status alone, so the method assigns the field.
\<close>

definition update_status :: "string \<Rightarrow> video \<Rightarrow> video" where
  "update_status s self = self\<lparr>status := s\<rparr>"

subsection \<open>The outside world\<close>

datatype event =
    EvMagic
  | EvProbe
  | EvScan
  | EvTranscode string
  | EvUpload string
  | EvCleanup string
  | EvSleep nat

record world =
  calls :: "event list"
  logs :: "string list"

definition call :: "event \<Rightarrow> world \<Rightarrow> world" where
  "call ev w = w\<lparr>calls := calls w @ [ev]\<rparr>"

definition log_msg :: "string \<Rightarrow> world \<Rightarrow> world" where
  "log_msg m w = w\<lparr>logs := logs w @ [m]\<rparr>"

text \<open>\<^verbatim>\<open>asyncio.sleep(delay)\<close>.\<close>

definition sleep :: "nat \<Rightarrow> world \<Rightarrow> world" where
  "sleep delay w = call (EvSleep delay) w"

text \<open>
  The collaborators. \<open>magic_from_buffer\<close> depends on the buffer only. \<open>ffprobe\<close> gives
  the return code and the decoded standard error. \<open>scan_bytes\<close> gives the truth value
  of \<^verbatim>\<open>scan_result.get('malware_detected')\<close>. \<open>ffmpeg_run\<close> gives the output and
  \<^verbatim>\<open>process.duration\<close>. \<open>put_object\<close> and \<open>storage_delete\<close> give the exception of the
  object store, if any. \<open>str_lower\<close> is \<^verbatim>\<open>str.lower\<close>.
\<close>

record env =
  magic_from_buffer :: "bytes \<Rightarrow> exn + string"
  ffprobe :: "event list \<Rightarrow> bytes \<Rightarrow> exn + int \<times> string"
  scan_bytes :: "event list \<Rightarrow> bytes \<Rightarrow> exn + bool"
  ffmpeg_run :: "event list \<Rightarrow> bytes \<Rightarrow> variant_config \<Rightarrow> exn + bytes \<times> real"
  py_hash :: "bytes \<Rightarrow> string"
  str_lower :: "string \<Rightarrow> string"
  put_object :: "event list \<Rightarrow> string \<Rightarrow> bytes \<Rightarrow> exn option"
  cdn_domain :: string
  storage_delete :: "event list \<Rightarrow> string \<Rightarrow> exn option"

subsection \<open>\<^verbatim>\<open>storage_service.py\<close>\<close>

definition upload_variant ::
  "env \<Rightarrow> bytes \<Rightarrow> string \<Rightarrow> string \<Rightarrow> world \<Rightarrow> (bool \<times> string \<times> string option) \<times> world" where
  "upload_variant e variant_content vid q w =
     (let variant_key = ''videos/'' @ vid @ ''/variants/'' @ q @ ''.mp4'';
          w1 = call (EvUpload q) w
      in case put_object e (calls w) variant_key variant_content of
           None \<Rightarrow>
             ((True, [], Some (''https://'' @ cdn_domain e @ ''/'' @ variant_key)),
              log_msg ''Variant upload completed'' w1)
         | Some ex \<Rightarrow>
             (let error_msg = ''Variant upload failed: '' @ str_exn ex
              in ((False, error_msg, None), log_msg error_msg w1)))"

text \<open>
  Modelled from the spec: \<^verbatim>\<open>StorageService.cleanup_failed_upload\<close>, which \<^verbatim>\<open>process_video\<close>
  calls and the tests expect, and which the storage service does not define. The
  specification gives \<^verbatim>\<open>cleanupFailedUpload(videoId) -> void\<close>, "best-effort, errors
  swallowed/logged": the deletion is tried, its exception is logged and the call returns.
\<close>

definition cleanup_failed_upload :: "env \<Rightarrow> string \<Rightarrow> world \<Rightarrow> world" where
  "cleanup_failed_upload e vid w =
     (let w1 = call (EvCleanup vid) w
      in case storage_delete e (calls w) vid of
           None \<Rightarrow> w1
         | Some ex \<Rightarrow> log_msg (''Cleanup failed: '' @ str_exn ex) w1)"

subsection \<open>\<^verbatim>\<open>video_processing_service.py\<close>\<close>

definition SUPPORTED_MIME_TYPES :: "string list" where
  "SUPPORTED_MIME_TYPES =
     [''video/mp4'', ''video/quicktime'', ''video/x-msvideo'', ''video/x-matroska'']"

text \<open>\<^verbatim>\<open>VARIANT_CONFIGS\<close>, in the insertion order of the dictionary.\<close>

definition VARIANT_CONFIGS :: "(string \<times> variant_config) list" where
  "VARIANT_CONFIGS =
     [(''hd'', \<lparr>cfg_width = 1920, cfg_height = 1080, cfg_bitrate = ''5000k'', cfg_fps = 30\<rparr>),
      (''sd'', \<lparr>cfg_width = 1280, cfg_height = 720, cfg_bitrate = ''2500k'', cfg_fps = 30\<rparr>),
      (''mobile'', \<lparr>cfg_width = 640, cfg_height = 360, cfg_bitrate = ''1000k'', cfg_fps = 30\<rparr>)]"

record retry_config =
  max_attempts :: nat
  backoff_factor :: nat
  initial_delay :: nat

definition RETRY_CONFIG :: retry_config where
  "RETRY_CONFIG = \<lparr>max_attempts = 3, backoff_factor = 2, initial_delay = 1\<rparr>"

text \<open>
  The decorator \<^verbatim>\<open>retry(config)\<close>. \<open>retry_from\<close> is the \<^verbatim>\<open>for\<close> loop over
  \<^verbatim>\<open>range(max_attempts)\<close>: its arguments are the number of attempts left, the loop
  variable \<^verbatim>\<open>attempt\<close> and \<^verbatim>\<open>last_exception\<close>. The wrapped call \<open>f\<close> works on a state
  \<open>'s\<close>, in which \<open>slp\<close> sleeps. After the loop \<^verbatim>\<open>raise last_exception\<close> raises a
  \<^verbatim>\<open>TypeError\<close> when no attempt was made.
\<close>

fun retry_from ::
  "retry_config \<Rightarrow> (nat \<Rightarrow> 's \<Rightarrow> 's) \<Rightarrow> ('s \<Rightarrow> (exn + 'a) \<times> 's) \<Rightarrow> nat \<Rightarrow> nat \<Rightarrow> exn option \<Rightarrow> 's
     \<Rightarrow> (exn + 'a) \<times> 's" where
  "retry_from config slp f 0 attempt last_exception s =
     (case last_exception of
        None \<Rightarrow> (Inl (TypeError ''exceptions must derive from BaseException''), s)
      | Some ex \<Rightarrow> (Inl ex, s))"
| "retry_from config slp f (Suc n) attempt last_exception s =
     (case f s of
        (Inr r, s') \<Rightarrow> (Inr r, s')
      | (Inl ex, s') \<Rightarrow>
          (let delay = initial_delay config * backoff_factor config ^ attempt
           in retry_from config slp f n (Suc attempt) (Some ex) (slp delay s')))"

definition retry ::
  "retry_config \<Rightarrow> (nat \<Rightarrow> 's \<Rightarrow> 's) \<Rightarrow> ('s \<Rightarrow> (exn + 'a) \<times> 's) \<Rightarrow> 's \<Rightarrow> (exn + 'a) \<times> 's" where
  "retry config slp f s = retry_from config slp f (max_attempts config) 0 None s"

definition validate_format :: "env \<Rightarrow> bytes \<Rightarrow> world \<Rightarrow> (bool \<times> string) \<times> world" where
  "validate_format e file_content w =
     (let w1 = call EvMagic w
      in case magic_from_buffer e (take 2048 file_content) of
           Inl ex \<Rightarrow> ((False, ''Format validation failed: '' @ str_exn ex), w1)
         | Inr mime_type \<Rightarrow>
             if mime_type \<notin> set SUPPORTED_MIME_TYPES
             then ((False, ''Unsupported MIME type: '' @ mime_type), w1)
             else
               (let w2 = call EvProbe w1
                in case ffprobe e (calls w1) file_content of
                     Inl ex \<Rightarrow> ((False, ''Format validation failed: '' @ str_exn ex), w2)
                   | Inr (returncode, stderr) \<Rightarrow>
                       if returncode \<noteq> 0
                       then ((False, ''Invalid video format: '' @ stderr), w2)
                       else ((True, []), w2)))"

definition scan_security :: "env \<Rightarrow> bytes \<Rightarrow> world \<Rightarrow> (bool \<times> string) \<times> world" where
  "scan_security e file_content w =
     (let w1 = call EvScan w
      in case scan_bytes e (calls w) file_content of
           Inl ex \<Rightarrow> ((False, ''Security scan failed: '' @ str_exn ex), w1)
         | Inr malware_detected \<Rightarrow>
             (let w2 = log_msg ''Security scan completed'' w1
              in if malware_detected
                 then ((False, ''Malware detected in video content''), w2)
                 else ((True, []), w2)))"

text \<open>The body of \<^verbatim>\<open>generate_variant\<close>, and the method as decorated.\<close>

definition generate_variant_body ::
  "env \<Rightarrow> bytes \<Rightarrow> string \<Rightarrow> variant_config \<Rightarrow> world \<Rightarrow> (exn + bytes \<times> video_metadata) \<times> world" where
  "generate_variant_body e file_content q config w =
     (let w1 = call (EvTranscode q) w;
          r = (case ffmpeg_run e (calls w) file_content config of
                 Inl ex \<Rightarrow> Inl ex
               | Inr (out, process_duration) \<Rightarrow>
                   (case VideoMetadata (str_lower e) process_duration (cfg_width config)
                           (cfg_height config)
                           (of_int (cfg_fps config)) ''h264'' (length out) ''mp4''
                           (py_hash e out) True True of
                      Inl ex \<Rightarrow> Inl ex
                    | Inr md \<Rightarrow> Inr (out, md)))
      in case r of
           Inl ex \<Rightarrow> (Inl ex, log_msg (''Variant generation failed: '' @ str_exn ex) w1)
         | Inr res \<Rightarrow> (Inr res, w1))"

definition generate_variant ::
  "env \<Rightarrow> bytes \<Rightarrow> string \<Rightarrow> variant_config \<Rightarrow> world \<Rightarrow> (exn + bytes \<times> video_metadata) \<times> world" where
  "generate_variant e file_content q config =
     retry RETRY_CONFIG sleep (generate_variant_body e file_content q config)"

text \<open>
  \<^verbatim>\<open>await\<close> applied to a tuple. \<^verbatim>\<open>StorageService.upload_variant\<close> is a plain \<^verbatim>\<open>def\<close>: the
  call in \<^verbatim>\<open>await self._storage_service.upload_variant(...)\<close> runs the upload and returns
  its tuple, and awaiting the tuple raises.
\<close>

definition await_tuple :: "'a \<Rightarrow> exn + 'a" where
  "await_tuple x =
     Inl (TypeError (''object tuple can'' @ [CHR 0x27] @ ''t be used in '' @ [CHR 0x27]
                     @ ''await'' @ [CHR 0x27] @ '' expression''))"

text \<open>
  The loop \<^verbatim>\<open>for quality, config in VARIANT_CONFIGS.items()\<close> of \<^verbatim>\<open>process_video\<close>. An
  exception leaves the loop with the video as the iterations before have changed it.
\<close>

fun process_variants ::
  "env \<Rightarrow> bytes \<Rightarrow> (string \<times> variant_config) list \<Rightarrow> video \<Rightarrow> world \<Rightarrow> (exn + unit) \<times> video \<times> world" where
  "process_variants e file_content [] v w = (Inr (), v, w)"
| "process_variants e file_content (qc # rest) v w =
     (let q = fst qc; config = snd qc
      in case generate_variant e file_content q config w of
           (Inl ex, w1) \<Rightarrow> (Inl ex, v, w1)
         | (Inr (variant_content, variant_metadata), w1) \<Rightarrow>
             (case upload_variant e variant_content (video_id v) q w1 of
                (uploaded, w2) \<Rightarrow>
                  (case await_tuple uploaded of
                     Inl ex \<Rightarrow> (Inl ex, v, w2)
                   | Inr (success, error, url_opt) \<Rightarrow>
                       if \<not> success
                       then (Inl (ValueError (''Failed to upload '' @ q @ '' variant: '' @ error)),
                             v, w2)
                       else
                         (case url_opt of
                            None \<Rightarrow> (Inl (ValidationError ''VideoVariant''), v, w2)
                          | Some u \<Rightarrow>
                              (case add_variant v q u variant_metadata
                                      \<lparr>provider = Some ''cloudfront'', dc_quality = q,
                                       dc_config = config\<rparr> of
                                 Inl ex \<Rightarrow> (Inl ex, v, w2)
                               | Inr (variant, v') \<Rightarrow>
                                   process_variants e file_content rest v' w2)))))"

text \<open>The \<^verbatim>\<open>try\<close> block of \<^verbatim>\<open>process_video\<close>.\<close>

definition process_video_try ::
  "env \<Rightarrow> bytes \<Rightarrow> video \<Rightarrow> world \<Rightarrow> (exn + bool) \<times> video \<times> world" where
  "process_video_try e file_content v w =
     (let v1 = update_status ''scanning'' v
      in case validate_format e file_content w of
           ((is_valid, error_msg), w1) \<Rightarrow>
             if \<not> is_valid
             then (Inl (ValueError (''Video validation failed: '' @ error_msg)), v1, w1)
             else
               (case scan_security e file_content w1 of
                  ((is_safe, scan_msg), w2) \<Rightarrow>
                    if \<not> is_safe
                    then (Inl (ValueError (''Security scan failed: '' @ scan_msg)), v1, w2)
                    else
                      (let v2 = update_status ''processing'' v1
                       in case process_variants e file_content VARIANT_CONFIGS v2 w2 of
                            (Inl ex, v3, w3) \<Rightarrow> (Inl ex, v3, w3)
                          | (Inr u, v3, w3) \<Rightarrow>
                              (Inr True, update_status ''ready'' v3,
                               log_msg ''Video processing completed'' w3))))"

text \<open>
  The body of \<^verbatim>\<open>process_video\<close> with its \<^verbatim>\<open>except\<close> handler, which re-raises the
  exception it caught.
\<close>

definition process_video_body ::
  "env \<Rightarrow> bytes \<Rightarrow> video \<times> world \<Rightarrow> (exn + bool) \<times> video \<times> world" where
  "process_video_body e file_content s =
     (case process_video_try e file_content (fst s) (snd s) of
        (Inr r, v', w') \<Rightarrow> (Inr r, v', w')
      | (Inl ex, v', w') \<Rightarrow>
          (let v'' = update_status ''failed'' v';
               w1 = log_msg (''Video processing failed: '' @ str_exn ex) w';
               w2 = cleanup_failed_upload e (video_id v'') w1
           in (Inl ex, v'', w2)))"

text \<open>The video sleeps with the world it lives in.\<close>

definition sleep_video :: "nat \<Rightarrow> video \<times> world \<Rightarrow> video \<times> world" where
  "sleep_video delay s = (fst s, sleep delay (snd s))"

text \<open>\<^verbatim>\<open>process_video\<close> as decorated with \<^verbatim>\<open>@retry(config=RETRY_CONFIG)\<close>.\<close>

definition process_video ::
  "env \<Rightarrow> bytes \<Rightarrow> video \<Rightarrow> world \<Rightarrow> (exn + bool) \<times> video \<times> world" where
  "process_video e file_content v w =
     retry RETRY_CONFIG sleep_video (process_video_body e file_content) (v, w)"

subsection \<open>The absent method as a parameter\<close>

text \<open>
  The \<^verbatim>\<open>try\<close> block and the handler of \<^verbatim>\<open>process_video\<close> once more, with the method
  \<^verbatim>\<open>update_status\<close> that \<^verbatim>\<open>Video\<close> lacks as the parameter \<open>upd\<close>, for what holds of
  the handler whatever that method does.
\<close>

definition process_video_try_with ::
  "(string \<Rightarrow> video \<Rightarrow> video) \<Rightarrow> env \<Rightarrow> bytes \<Rightarrow> video \<Rightarrow> world
     \<Rightarrow> (exn + bool) \<times> video \<times> world" where
  "process_video_try_with upd e file_content v w =
     (let v1 = upd ''scanning'' v
      in case validate_format e file_content w of
           ((is_valid, error_msg), w1) \<Rightarrow>
             if \<not> is_valid
             then (Inl (ValueError (''Video validation failed: '' @ error_msg)), v1, w1)
             else
               (case scan_security e file_content w1 of
                  ((is_safe, scan_msg), w2) \<Rightarrow>
                    if \<not> is_safe
                    then (Inl (ValueError (''Security scan failed: '' @ scan_msg)), v1, w2)
                    else
                      (let v2 = upd ''processing'' v1
                       in case process_variants e file_content VARIANT_CONFIGS v2 w2 of
                            (Inl ex, v3, w3) \<Rightarrow> (Inl ex, v3, w3)
                          | (Inr u, v3, w3) \<Rightarrow>
                              (Inr True, upd ''ready'' v3,
                               log_msg ''Video processing completed'' w3))))"

definition process_video_body_with ::
  "(string \<Rightarrow> video \<Rightarrow> video) \<Rightarrow> env \<Rightarrow> bytes \<Rightarrow> video \<times> world
     \<Rightarrow> (exn + bool) \<times> video \<times> world" where
  "process_video_body_with upd e file_content s =
     (case process_video_try_with upd e file_content (fst s) (snd s) of
        (Inr r, v', w') \<Rightarrow> (Inr r, v', w')
      | (Inl ex, v', w') \<Rightarrow>
          (let v'' = upd ''failed'' v';
               w1 = log_msg (''Video processing failed: '' @ str_exn ex) w';
               w2 = cleanup_failed_upload e (video_id v'') w1
           in (Inl ex, v'', w2)))"

subsection \<open>Sequences of operations on a video\<close>





subsection \<open>Observing the call log\<close>

fun is_magic :: "event \<Rightarrow> bool" where
  "is_magic EvMagic = True"
| "is_magic _ = False"

fun is_scan :: "event \<Rightarrow> bool" where
  "is_scan EvScan = True"
| "is_scan _ = False"

fun is_transcode :: "event \<Rightarrow> bool" where
  "is_transcode (EvTranscode q) = True"
| "is_transcode _ = False"

fun is_upload :: "event \<Rightarrow> bool" where
  "is_upload (EvUpload q) = True"
| "is_upload _ = False"

fun is_cleanup :: "event \<Rightarrow> bool" where
  "is_cleanup (EvCleanup vid) = True"
| "is_cleanup _ = False"

text \<open>How many calls of one kind the log holds.\<close>

definition n_calls :: "(event \<Rightarrow> bool) \<Rightarrow> world \<Rightarrow> nat" where
  "n_calls P w = length (filter P (calls w))"

subsection \<open>Example inputs\<close>

text \<open>An upload of 1024 bytes that libmagic takes for an MP4 file.\<close>

definition magic_mp4 :: "bytes \<Rightarrow> exn + string" where
  "magic_mp4 b = Inr ''video/mp4''"

definition ok_content :: bytes where
  "ok_content = [0, 0, 0] @ replicate 1017 0 @ b_mdat"

text \<open>
  A world in which every collaborator succeeds: the content is an MP4 file, ffprobe
  exits with 0, the scanner finds nothing, ffmpeg gives three bytes of output for a
  minute of video, and the object store accepts every request.
\<close>

definition env_ok :: env where
  "env_ok = \<lparr>magic_from_buffer = (\<lambda>b. Inr ''video/mp4''),
             ffprobe = (\<lambda>tr b. Inr (0, [])),
             scan_bytes = (\<lambda>tr b. Inr False),
             ffmpeg_run = (\<lambda>tr b config. Inr ([1, 2, 3], 60)),
             py_hash = (\<lambda>b. ''0''),
             str_lower = ascii_lower,
             put_object = (\<lambda>tr k b. None),
             cdn_domain = ''cdn.example.com'',
             storage_delete = (\<lambda>tr vid. None)\<rparr>"

text \<open>The same world with a scanner that finds malware.\<close>

definition env_unsafe :: env where
  "env_unsafe = env_ok\<lparr>scan_bytes := (\<lambda>tr b. Inr True)\<rparr>"

text \<open>The same world with a transcoder that crashes.\<close>

definition env_crash :: env where
  "env_crash = env_ok\<lparr>ffmpeg_run := (\<lambda>tr b config. Inl (ExternalError ''ffmpeg error''))\<rparr>"

text \<open>The same world with libmagic's answers for an empty buffer and for a PDF file.\<close>

definition env_empty :: env where
  "env_empty = env_ok\<lparr>magic_from_buffer :=
     (\<lambda>b. if b = [] then Inr ''application/x-empty'' else Inr ''video/mp4'')\<rparr>"

definition env_pdf :: env where
  "env_pdf = env_ok\<lparr>magic_from_buffer := (\<lambda>b. Inr ''application/pdf'')\<rparr>"

text \<open>A world with an unsafe upload in which the object store also refuses to delete.\<close>

definition env_no_delete :: env where
  "env_no_delete =
     env_unsafe\<lparr>storage_delete := (\<lambda>tr vid. Some (ExternalError ''AccessDenied''))\<rparr>"

definition content0 :: bytes where
  "content0 = [0, 0, 0, 24]"

text \<open>A video as \<^verbatim>\<open>Video.__init__\<close> leaves it.\<close>

definition video0 :: video where
  "video0 = \<lparr>video_id = ''v1'', status = ''pending'', variants = [],
             processing_history = [(''upload_started'', HUploadStarted),
                                   (''file_validation'', HFileValidation [])]\<rparr>"

definition world0 :: world where
  "world0 = \<lparr>calls = [], logs = []\<rparr>"

definition metadata0 :: video_metadata where
  "metadata0 = \<lparr>duration = 60, width = 160, height = 90, fps = 30, codec = ''h264'',
                size_bytes = 3, format = ''mp4'', checksum = ''0'',
                virus_scanned = True, content_safe = True\<rparr>"

definition delivery0 :: delivery where
  "delivery0 = \<lparr>provider = None, dc_quality = ''thumbnail'',
                dc_config = \<lparr>cfg_width = 160, cfg_height = 90, cfg_bitrate = ''100k'',
                             cfg_fps = 30\<rparr>\<rparr>"



section \<open>Properties\<close>

subsection \<open>The call log and the retry loop\<close>

lemma calls_call [simp]: "calls (call ev w) = calls w @ [ev]"
  by (simp add: call_def)

lemma logs_call [simp]: "logs (call ev w) = logs w"
  by (simp add: call_def)

lemma calls_log_msg [simp]: "calls (log_msg m w) = calls w"
  by (simp add: log_msg_def)

lemma logs_log_msg [simp]: "logs (log_msg m w) = logs w @ [m]"
  by (simp add: log_msg_def)

lemma n_calls_call [simp]: "n_calls P (call ev w) = n_calls P w + (if P ev then 1 else 0)"
  by (simp add: n_calls_def)

lemma n_calls_log_msg [simp]: "n_calls P (log_msg m w) = n_calls P w"
  by (simp add: n_calls_def)

lemma n_calls_sleep [simp]: "n_calls P (sleep d w) = n_calls P w + (if P (EvSleep d) then 1 else 0)"
  by (simp add: sleep_def)

lemma logs_sleep [simp]: "logs (sleep d w) = logs w"
  by (simp add: sleep_def)

lemma calls_sleep [simp]: "calls (sleep d w) = calls w @ [EvSleep d]"
  by (simp add: sleep_def)

lemma calls_cleanup [simp]:
  "calls (cleanup_failed_upload e vid w) = calls w @ [EvCleanup vid]"
  by (simp add: cleanup_failed_upload_def Let_def split: option.splits)

lemma n_calls_cleanup [simp]:
  "n_calls P (cleanup_failed_upload e vid w) = n_calls P w + (if P (EvCleanup vid) then 1 else 0)"
  by (simp add: n_calls_def)

lemma logs_cleanup: "set (logs w) \<subseteq> set (logs (cleanup_failed_upload e vid w))"
  by (auto simp: cleanup_failed_upload_def Let_def split: option.splits)

text \<open>With \<^verbatim>\<open>RETRY_CONFIG\<close> a call that fails three times has slept 1, 2 and 4 seconds.\<close>

lemma retry3_fail:
  assumes "f s0 = (Inl e1, s1)"
    and "f (slp 1 s1) = (Inl e2, s2)"
    and "f (slp 2 s2) = (Inl e3, s3)"
  shows "retry RETRY_CONFIG slp f s0 = (Inl e3, slp 4 s3)"
  using assms by (simp add: retry_def RETRY_CONFIG_def eval_nat_numeral)

lemma retry1_ok:
  assumes "f s0 = (Inr r, s1)"
  shows "retry RETRY_CONFIG slp f s0 = (Inr r, s1)"
  using assms by (simp add: retry_def RETRY_CONFIG_def eval_nat_numeral)

subsection \<open>No run of \<^verbatim>\<open>process_video\<close> succeeds\<close>

text \<open>
  The loop over the profiles cannot get past its first profile: either the transcode
  fails, or the upload is made and the \<^verbatim>\<open>await\<close> on its result raises. Whatever the
  collaborators answer, the loop ends in an exception before it has changed the video.
  Behind the \<^verbatim>\<open>await\<close> there is a second obstacle: \<^verbatim>\<open>add_variant\<close> accepts the names of
  \<^verbatim>\<open>VIDEO_VARIANTS\<close> only, and the profiles of \<^verbatim>\<open>VARIANT_CONFIGS\<close> are called \<^verbatim>\<open>hd\<close>,
  \<^verbatim>\<open>sd\<close> and \<^verbatim>\<open>mobile\<close>.
\<close>

lemma add_variant_not_listed:
  "q \<notin> set VIDEO_VARIANTS \<Longrightarrow>
   add_variant v q u md dc = Inl (ValueError (''Invalid quality variant: '' @ q))"
  by (simp add: add_variant_def)

lemma profile_names_not_listed: "fst ` set VARIANT_CONFIGS \<inter> set VIDEO_VARIANTS = {}"
  by (simp add: VARIANT_CONFIGS_def VIDEO_VARIANTS_def)

lemma process_variants_first_fails:
  "\<exists>ex w'. process_variants e c (qc # rest) v w = (Inl ex, v, w')"
  by (auto simp: Let_def await_tuple_def split: prod.splits sum.splits)

lemma process_variants_configs_fail:
  "\<exists>ex w'. process_variants e c VARIANT_CONFIGS v w = (Inl ex, v, w')"
  unfolding VARIANT_CONFIGS_def by (rule process_variants_first_fails)

lemma process_video_try_fails:
  "\<exists>ex st w'. process_video_try e c v w = (Inl ex, v\<lparr>status := st\<rparr>, w')"
proof -
  obtain ok msg w1 where vf: "validate_format e c w = ((ok, msg), w1)"
    by (metis prod.exhaust)
  obtain safe smsg w2 where sc: "scan_security e c w1 = ((safe, smsg), w2)"
    by (metis prod.exhaust)
  obtain ex w3 where pv:
    "process_variants e c VARIANT_CONFIGS (v\<lparr>status := ''processing''\<rparr>) w2
       = (Inl ex, v\<lparr>status := ''processing''\<rparr>, w3)"
    using process_variants_configs_fail by blast
  show ?thesis
    using vf sc pv by (auto simp: process_video_try_def update_status_def Let_def)
qed

lemma process_video_body_fails:
  "\<exists>ex w'. process_video_body e c (v, w) = (Inl ex, v\<lparr>status := ''failed''\<rparr>, w')"
proof -
  obtain ex st w1 where "process_video_try e c v w = (Inl ex, v\<lparr>status := st\<rparr>, w1)"
    using process_video_try_fails by blast
  then show ?thesis
    by (simp add: process_video_body_def update_status_def Let_def)
qed

text \<open>
  The three attempts of a run: each one fails, the video passes from one to the next
  with the status \<^verbatim>\<open>failed\<close>, and the run raises the exception of the third.
\<close>

lemma process_video_unroll:
  obtains ex1 w1 ex2 w2 ex3 w3 where
    "process_video_body e c (v, w) = (Inl ex1, v\<lparr>status := ''failed''\<rparr>, w1)"
    and "process_video_body e c (v\<lparr>status := ''failed''\<rparr>, sleep 1 w1)
           = (Inl ex2, v\<lparr>status := ''failed''\<rparr>, w2)"
    and "process_video_body e c (v\<lparr>status := ''failed''\<rparr>, sleep 2 w2)
           = (Inl ex3, v\<lparr>status := ''failed''\<rparr>, w3)"
    and "process_video e c v w = (Inl ex3, v\<lparr>status := ''failed''\<rparr>, sleep 4 w3)"
proof -
  let ?f = "v\<lparr>status := ''failed''\<rparr>"
  obtain ex1 w1 where a1: "process_video_body e c (v, w) = (Inl ex1, ?f, w1)"
    using process_video_body_fails by blast
  obtain ex2 w2 where a2: "process_video_body e c (?f, sleep 1 w1) = (Inl ex2, ?f, w2)"
    using process_video_body_fails [of e c ?f "sleep 1 w1"] by auto
  obtain ex3 w3 where a3: "process_video_body e c (?f, sleep 2 w2) = (Inl ex3, ?f, w3)"
    using process_video_body_fails [of e c ?f "sleep 2 w2"] by auto
  have "process_video e c v w = (Inl ex3, ?f, sleep 4 w3)"
    using a1 a2 a3
    by (simp add: process_video_def retry_def RETRY_CONFIG_def eval_nat_numeral sleep_video_def)
  with a1 a2 a3 show ?thesis
    using that by blast
qed

lemma process_video_fails:
  "\<exists>ex w'. process_video e c v w = (Inl ex, v\<lparr>status := ''failed''\<rparr>, w')"
  using process_video_unroll [of e c v w] by metis

subsection \<open>The world in which everything succeeds\<close>

lemma lower_h264: "ascii_lower ''h264'' = ''h264''"
  by code_simp

lemma lower_mp4: "ascii_lower ''mp4'' = ''mp4''"
  by code_simp

lemma generate_variant_body_env_ok:
  "generate_variant_body env_ok c q (snd (hd VARIANT_CONFIGS)) w =
     (Inr ([1, 2, 3],
           \<lparr>duration = 60, width = 1920, height = 1080, fps = 30, codec = ''h264'',
            size_bytes = 3, format = ''mp4'', checksum = ''0'',
            virus_scanned = True, content_safe = True\<rparr>),
      call (EvTranscode q) w)"
  by (simp add: generate_variant_body_def env_ok_def VARIANT_CONFIGS_def VideoMetadata_def
      lower_h264 lower_mp4 MIN_FPS_def MAX_FPS_def ALLOWED_VIDEO_CODECS_def
      MODEL_VIDEO_FORMATS_def MAX_VIDEO_SIZE_BYTES_def)

lemma generate_variant_env_ok:
  "generate_variant env_ok c q (snd (hd VARIANT_CONFIGS)) w =
     (Inr ([1, 2, 3],
           \<lparr>duration = 60, width = 1920, height = 1080, fps = 30, codec = ''h264'',
            size_bytes = 3, format = ''mp4'', checksum = ''0'',
            virus_scanned = True, content_safe = True\<rparr>),
      call (EvTranscode q) w)"
  unfolding generate_variant_def by (rule retry1_ok) (rule generate_variant_body_env_ok)

lemma validate_format_env_ok:
  "validate_format env_ok c w = ((True, []), call EvProbe (call EvMagic w))"
  by (simp add: validate_format_def env_ok_def SUPPORTED_MIME_TYPES_def)

lemma scan_security_env_ok:
  "scan_security env_ok c w = ((True, []), log_msg ''Security scan completed'' (call EvScan w))"
  by (simp add: scan_security_def env_ok_def)

lemma upload_variant_env_ok:
  "upload_variant env_ok b vid q w =
     ((True, [], Some (''https://cdn.example.com/videos/'' @ vid @ ''/variants/'' @ q @ ''.mp4'')),
      log_msg ''Variant upload completed'' (call (EvUpload q) w))"
  by (simp add: upload_variant_def env_ok_def)

lemma cleanup_env_ok: "cleanup_failed_upload env_ok vid w = call (EvCleanup vid) w"
  by (simp add: cleanup_failed_upload_def env_ok_def)

lemma await_tuple_message:
  "await_tuple x = Inl (TypeError (''object tuple can'' @ [CHR 0x27] @ ''t be used in ''
                                   @ [CHR 0x27] @ ''await'' @ [CHR 0x27] @ '' expression''))"
  by (simp add: await_tuple_def)

lemma process_variants_env_ok:
  "process_variants env_ok c VARIANT_CONFIGS v w =
     (Inl (TypeError (''object tuple can'' @ [CHR 0x27] @ ''t be used in '' @ [CHR 0x27]
                      @ ''await'' @ [CHR 0x27] @ '' expression'')), v,
      log_msg ''Variant upload completed'' (call (EvUpload ''hd'') (call (EvTranscode ''hd'') w)))"
proof -
  have "VARIANT_CONFIGS = (''hd'', snd (hd VARIANT_CONFIGS)) # tl VARIANT_CONFIGS"
    by (simp add: VARIANT_CONFIGS_def)
  then obtain rest where r: "VARIANT_CONFIGS = (''hd'', snd (hd VARIANT_CONFIGS)) # rest" ..
  show ?thesis
    by (subst r)
      (simp add: Let_def generate_variant_env_ok upload_variant_env_ok await_tuple_def)
qed

lemma process_video_body_env_ok:
  "process_video_body env_ok c (v, w) =
     (Inl (TypeError (''object tuple can'' @ [CHR 0x27] @ ''t be used in '' @ [CHR 0x27]
                      @ ''await'' @ [CHR 0x27] @ '' expression'')),
      v\<lparr>status := ''failed''\<rparr>,
      w\<lparr>calls := calls w @ [EvMagic, EvProbe, EvScan, EvTranscode ''hd'', EvUpload ''hd'',
                             EvCleanup (video_id v)],
        logs := logs w @ [''Security scan completed'', ''Variant upload completed'',
                          ''Video processing failed: object tuple can'' @ [CHR 0x27]
                            @ ''t be used in '' @ [CHR 0x27] @ ''await'' @ [CHR 0x27]
                            @ '' expression'']\<rparr>)"
  by (simp add: process_video_body_def process_video_try_def validate_format_env_ok
      scan_security_env_ok process_variants_env_ok cleanup_env_ok update_status_def call_def
      log_msg_def)

text \<open>
  C1. The claim: when validation, scan and every transcode and upload succeed,
  \<^verbatim>\<open>process_video\<close> ends with the status \<^verbatim>\<open>ready\<close> and one variant for each of \<^verbatim>\<open>hd\<close>,
  \<^verbatim>\<open>sd\<close> and \<^verbatim>\<open>mobile\<close>. The code, run in the world where every collaborator succeeds:
  each of the three attempts validates, scans, transcodes and uploads the \<^verbatim>\<open>hd\<close> variant
  and then fails with the \<^verbatim>\<open>TypeError\<close> of awaiting the tuple that \<^verbatim>\<open>upload_variant\<close>
  returned. The run raises that error; the video ends \<^verbatim>\<open>failed\<close> and without variants.
  Had the upload been awaited with success, \<^verbatim>\<open>add_variant\<close> would have refused the
  name \<^verbatim>\<open>hd\<close>, which \<^verbatim>\<open>VIDEO_VARIANTS\<close> does not list.
\<close>

theorem process_video_all_succeed_ends_failed:
  "process_video env_ok content0 video0 world0 =
     (Inl (TypeError (''object tuple can'' @ [CHR 0x27] @ ''t be used in '' @ [CHR 0x27]
                      @ ''await'' @ [CHR 0x27] @ '' expression'')),
      \<lparr>video_id = ''v1'', status = ''failed'', variants = [],
       processing_history = [(''upload_started'', HUploadStarted),
                             (''file_validation'', HFileValidation [])]\<rparr>,
      snd (snd (process_video env_ok content0 video0 world0)))
   \<and> calls (snd (snd (process_video env_ok content0 video0 world0))) =
       [EvMagic, EvProbe, EvScan, EvTranscode ''hd'', EvUpload ''hd'', EvCleanup ''v1'',
        EvSleep 1,
        EvMagic, EvProbe, EvScan, EvTranscode ''hd'', EvUpload ''hd'', EvCleanup ''v1'',
        EvSleep 2,
        EvMagic, EvProbe, EvScan, EvTranscode ''hd'', EvUpload ''hd'', EvCleanup ''v1'',
        EvSleep 4]
   \<and> add_variant video0 ''hd'' ''https://cdn.example.com/videos/v1/variants/hd.mp4''
         metadata0 delivery0
       = Inl (ValueError ''Invalid quality variant: hd'')"
proof -
  let ?ex = "TypeError (''object tuple can'' @ [CHR 0x27] @ ''t be used in '' @ [CHR 0x27]
                      @ ''await'' @ [CHR 0x27] @ '' expression'')"
  obtain s1 where a1: "process_video_body env_ok content0 (video0, world0) = (Inl ?ex, s1)"
    and b1: "s1 = snd (process_video_body env_ok content0 (video0, world0))"
    by (simp add: process_video_body_env_ok)
  obtain s2 where a2: "process_video_body env_ok content0 (sleep_video 1 s1) = (Inl ?ex, s2)"
    and b2: "s2 = snd (process_video_body env_ok content0 (sleep_video 1 s1))"
    by (simp add: process_video_body_env_ok sleep_video_def)
  obtain s3 where a3: "process_video_body env_ok content0 (sleep_video 2 s2) = (Inl ?ex, s3)"
    and b3: "s3 = snd (process_video_body env_ok content0 (sleep_video 2 s2))"
    by (simp add: process_video_body_env_ok sleep_video_def)
  have r: "process_video env_ok content0 video0 world0 = (Inl ?ex, sleep_video 4 s3)"
    unfolding process_video_def using retry3_fail [OF a1 a2 a3] by simp
  have v: "fst (sleep_video 4 s3) =
     \<lparr>video_id = ''v1'', status = ''failed'', variants = [],
       processing_history = [(''upload_started'', HUploadStarted),
                             (''file_validation'', HFileValidation [])]\<rparr>"
    unfolding b3 b2 b1
    by (simp add: process_video_body_env_ok sleep_video_def video0_def)
  have c: "calls (snd (sleep_video 4 s3)) =
       [EvMagic, EvProbe, EvScan, EvTranscode ''hd'', EvUpload ''hd'', EvCleanup ''v1'',
        EvSleep 1,
        EvMagic, EvProbe, EvScan, EvTranscode ''hd'', EvUpload ''hd'', EvCleanup ''v1'',
        EvSleep 2,
        EvMagic, EvProbe, EvScan, EvTranscode ''hd'', EvUpload ''hd'', EvCleanup ''v1'',
        EvSleep 4]"
    unfolding b3 b2 b1
    by (simp add: process_video_body_env_ok sleep_video_def sleep_def call_def video0_def
        world0_def)
  have a: "add_variant video0 ''hd'' ''https://cdn.example.com/videos/v1/variants/hd.mp4''
         metadata0 delivery0 = Inl (ValueError ''Invalid quality variant: hd'')"
    by (simp add: add_variant_def VIDEO_VARIANTS_def)
  show ?thesis
    using r v c a by (cases "sleep_video 4 s3") simp
qed

subsection \<open>What \<^verbatim>\<open>validate_video_file\<close> accepts\<close>

lemma startswith_3: "startswith xs [a, b, c] = (take 3 xs = [a, b, c])"
  by (simp add: startswith_def numeral_3_eq_3)

lemma file_ext_of_example: "file_ext_of ascii_lower ''clip.MP4'' = ''.mp4''"
  by code_simp

lemma validate_video_file_example:
  "validate_video_file magic_mp4 ascii_lower ok_content ''clip.MP4'' True =
     (True, [], [(''size'', MInt 1024), (''extension'', MStr ''.mp4''),
                 (''mime_type'', MStr ''video/mp4'')])"
  by (simp add: validate_video_file_def file_ext_of_example ok_content_def magic_mp4_def
      MAX_VIDEO_SIZE_BYTES_def ALLOWED_VIDEO_FORMATS_def VALID_MIME_TYPES_def startswith_def
      endswith_def b_mdat_def b_moov_def)

text \<open>
  C10. Whatever \<^verbatim>\<open>validate_video_file\<close> accepts under strict validation is at least 1024
  bytes and at most 5 GiB (5368709120 bytes) long, begins with the bytes 00 00 00 or
  00 00 01, has \<^verbatim>\<open>mdat\<close> or \<^verbatim>\<open>moov\<close> at the end of its last 32 bytes, and comes under a
  file name whose extension, the part from the last dot on lower-cased by \<^verbatim>\<open>str.lower\<close>, is one of
  \<^verbatim>\<open>.mp4\<close>, \<^verbatim>\<open>.mov\<close>, \<^verbatim>\<open>.avi\<close>, \<^verbatim>\<open>.mkv\<close>.
\<close>

theorem validate_video_file_accepts_within_bounds:
  assumes "validate_video_file magic lower file_content filename True = (True, msg, md)"
  shows "1024 \<le> length file_content \<and> length file_content \<le> 5368709120
       \<and> (take 3 file_content = [0, 0, 0] \<or> take 3 file_content = [0, 0, 1])
       \<and> (endswith (drop (length file_content - 32) file_content) b_mdat
          \<or> endswith (drop (length file_content - 32) file_content) b_moov)
       \<and> file_ext_of lower filename \<in> {''.mp4'', ''.mov'', ''.avi'', ''.mkv''}"
  using assms
  by (auto simp: validate_video_file_def Let_def MAX_VIDEO_SIZE_BYTES_def
      ALLOWED_VIDEO_FORMATS_def startswith_3 split: if_splits sum.splits)

theorem validate_video_file_accepts_within_bounds_witness:
  "validate_video_file magic_mp4 ascii_lower ok_content ''clip.MP4'' True =
     (True, [], [(''size'', MInt 1024), (''extension'', MStr ''.mp4''),
                 (''mime_type'', MStr ''video/mp4'')])
   \<and> 1024 \<le> length ok_content \<and> length ok_content \<le> 5368709120
   \<and> (take 3 ok_content = [0, 0, 0] \<or> take 3 ok_content = [0, 0, 1])
   \<and> (endswith (drop (length ok_content - 32) ok_content) b_mdat
      \<or> endswith (drop (length ok_content - 32) ok_content) b_moov)
   \<and> file_ext_of ascii_lower ''clip.MP4'' \<in> {''.mp4'', ''.mov'', ''.avi'', ''.mkv''}"
  using validate_video_file_accepts_within_bounds [OF validate_video_file_example]
    validate_video_file_example
  by simp

subsection \<open>Counting calls\<close>

text \<open>What each operation adds to the number of calls of one kind.\<close>

lemma retry_from_n_calls:
  assumes f: "\<And>s. n_calls P (snd (f s)) = n_calls P s"
    and slp: "\<And>d s. n_calls P (slp d s) = n_calls P s"
  shows "n_calls P (snd (retry_from config slp f n attempt lastex s)) = n_calls P s"
proof (induction n arbitrary: attempt lastex s)
  case 0
  then show ?case by (simp split: option.splits)
next
  case (Suc n)
  obtain r s' where fs: "f s = (r, s')" by (cases "f s")
  with f [of s] have eq: "n_calls P s' = n_calls P s" by simp
  show ?case
  proof (cases r)
    case (Inl ex)
    with fs Suc.IH eq slp show ?thesis by (simp add: Let_def)
  next
    case (Inr res)
    with fs eq show ?thesis by simp
  qed
qed

lemma n_calls_validate_format:
  "\<not> P EvProbe \<Longrightarrow>
   n_calls P (snd (validate_format e c w)) = n_calls P w + (if P EvMagic then 1 else 0)"
  by (simp add: validate_format_def Let_def split: sum.splits prod.splits)

lemma n_calls_scan_security:
  "n_calls P (snd (scan_security e c w)) = n_calls P w + (if P EvScan then 1 else 0)"
  by (simp add: scan_security_def Let_def split: sum.splits)

lemma n_calls_upload_variant:
  "n_calls P (snd (upload_variant e b vid q w)) = n_calls P w + (if P (EvUpload q) then 1 else 0)"
  by (simp add: upload_variant_def Let_def split: option.splits)

lemma n_calls_generate_variant_body:
  "n_calls P (snd (generate_variant_body e c q config w))
     = n_calls P w + (if P (EvTranscode q) then 1 else 0)"
  by (simp add: generate_variant_body_def Let_def split: sum.splits prod.splits)

lemma n_calls_generate_variant:
  assumes "\<not> P (EvTranscode q)" and "\<And>d. \<not> P (EvSleep d)"
  shows "n_calls P (snd (generate_variant e c q config w)) = n_calls P w"
  unfolding generate_variant_def retry_def
  by (rule retry_from_n_calls) (simp_all add: n_calls_generate_variant_body assms)

lemma n_calls_process_variants:
  assumes "\<And>q. \<not> P (EvTranscode q)" and "\<And>q. \<not> P (EvUpload q)" and "\<And>d. \<not> P (EvSleep d)"
  shows "n_calls P (snd (snd (process_variants e c cfgs v w))) = n_calls P w"
proof (induction cfgs arbitrary: v w)
  case Nil
  show ?case by simp
next
  case (Cons qc rest)
  have gv: "n_calls P (snd (generate_variant e c (fst qc) (snd qc) w)) = n_calls P w"
    by (rule n_calls_generate_variant) (simp_all add: assms)
  show ?case
  proof (cases "generate_variant e c (fst qc) (snd qc) w")
    case (Pair r w1)
    with gv have w1: "n_calls P w1 = n_calls P w" by simp
    show ?thesis
    proof (cases r)
      case (Inl ex)
      with Pair w1 show ?thesis by (simp add: Let_def)
    next
      case (Inr res)
      obtain out md where res: "res = (out, md)" by (cases res)
      obtain ok err uo w2 where up:
        "upload_variant e out (video_id v) (fst qc) w1 = ((ok, err, uo), w2)"
        by (metis prod.exhaust)
      have w2: "n_calls P w2 = n_calls P w"
        using n_calls_upload_variant [of P e out "video_id v" "fst qc" w1] up w1 assms(2)
        by simp
      show ?thesis
        using Pair Inr res up w2 Cons.IH
        by (simp add: Let_def split: option.splits sum.splits prod.splits)
    qed
  qed
qed

subsection \<open>One attempt of \<^verbatim>\<open>process_video\<close>\<close>

lemma process_video_body_validation_rejects:
  assumes "validate_format e c w = ((False, msg), w1)"
  shows "process_video_body e c (v, w) =
     (Inl (ValueError (''Video validation failed: '' @ msg)), v\<lparr>status := ''failed''\<rparr>,
      cleanup_failed_upload e (video_id v)
        (log_msg (''Video processing failed: Video validation failed: '' @ msg) w1))"
  using assms
  by (simp add: process_video_body_def process_video_try_def update_status_def Let_def)

lemma process_video_body_scan_rejects:
  assumes "validate_format e c w = ((True, msg), w1)"
    and "scan_security e c w1 = ((False, smsg), w2)"
  shows "process_video_body e c (v, w) =
     (Inl (ValueError (''Security scan failed: '' @ smsg)), v\<lparr>status := ''failed''\<rparr>,
      cleanup_failed_upload e (video_id v)
        (log_msg (''Video processing failed: Security scan failed: '' @ smsg) w2))"
  using assms
  by (simp add: process_video_body_def process_video_try_def update_status_def Let_def)

text \<open>Every attempt validates once and cleans up once.\<close>

lemma n_calls_process_video_try:
  assumes "\<not> P EvMagic" "\<not> P EvProbe" "\<not> P EvScan"
    and "\<And>q. \<not> P (EvTranscode q)" and "\<And>q. \<not> P (EvUpload q)" and "\<And>d. \<not> P (EvSleep d)"
  shows "n_calls P (snd (snd (process_video_try e c v w))) = n_calls P w"
proof -
  obtain ok msg w1 where vf: "validate_format e c w = ((ok, msg), w1)"
    by (metis prod.exhaust)
  obtain safe smsg w2 where sc: "scan_security e c w1 = ((safe, smsg), w2)"
    by (metis prod.exhaust)
  have w1: "n_calls P w1 = n_calls P w"
    using n_calls_validate_format [of P e c w] vf assms by simp
  have w2: "n_calls P w2 = n_calls P w"
    using n_calls_scan_security [of P e c w1] sc w1 assms by simp
  have pv: "n_calls P (snd (snd (process_variants e c VARIANT_CONFIGS v' w2))) = n_calls P w" for v'
    using n_calls_process_variants [of P e c VARIANT_CONFIGS v' w2] assms w2 by simp
  show ?thesis
    using vf sc w1 w2 pv [of "update_status ''processing'' (update_status ''scanning'' v)"]
    by (auto simp: process_video_try_def Let_def split: prod.splits sum.splits)
qed

lemma n_calls_process_video_body:
  assumes "\<not> P EvMagic" "\<not> P EvProbe" "\<not> P EvScan"
    and "\<And>q. \<not> P (EvTranscode q)" and "\<And>q. \<not> P (EvUpload q)" and "\<And>d. \<not> P (EvSleep d)"
    and "\<And>vid. \<not> P (EvCleanup vid)"
  shows "n_calls P (snd (snd (process_video_body e c (v, w)))) = n_calls P w"
  using n_calls_process_video_try [of P e c v w] assms
  by (auto simp: process_video_body_def Let_def split: prod.splits sum.splits)

text \<open>An attempt that a gate stops neither transcodes nor uploads.\<close>

lemma process_video_body_gate_stops:
  assumes "\<not> fst (fst (validate_format e c w))
         \<or> \<not> fst (fst (scan_security e c (snd (validate_format e c w))))"
    and "\<not> P EvMagic" "\<not> P EvProbe" "\<not> P EvScan" "\<And>vid. \<not> P (EvCleanup vid)"
  shows "n_calls P (snd (snd (process_video_body e c (v, w)))) = n_calls P w"
proof -
  obtain ok msg w1 where vf: "validate_format e c w = ((ok, msg), w1)"
    by (metis prod.exhaust)
  obtain safe smsg w2 where sc: "scan_security e c w1 = ((safe, smsg), w2)"
    by (metis prod.exhaust)
  have w1: "n_calls P w1 = n_calls P w"
    using n_calls_validate_format [of P e c w] vf assms by simp
  have w2: "n_calls P w2 = n_calls P w"
    using n_calls_scan_security [of P e c w1] sc w1 assms by simp
  show ?thesis
  proof (cases ok)
    case False
    with vf w1 assms show ?thesis
      by (simp add: process_video_body_validation_rejects)
  next
    case True
    with assms(1) vf sc have "\<not> safe" by simp
    with True vf sc w2 assms show ?thesis
      by (simp add: process_video_body_scan_rejects)
  qed
qed

lemma n_magic_process_video_body:
  "n_calls is_magic (snd (snd (process_video_body e c (v, w)))) = n_calls is_magic w + 1"
proof -
  obtain ok msg w1 where vf: "validate_format e c w = ((ok, msg), w1)"
    by (metis prod.exhaust)
  obtain safe smsg w2 where sc: "scan_security e c w1 = ((safe, smsg), w2)"
    by (metis prod.exhaust)
  have w1: "n_calls is_magic w1 = n_calls is_magic w + 1"
    using n_calls_validate_format [of is_magic e c w] vf by simp
  have w2: "n_calls is_magic w2 = n_calls is_magic w + 1"
    using n_calls_scan_security [of is_magic e c w1] sc w1 by simp
  have pv: "n_calls is_magic (snd (snd (process_variants e c VARIANT_CONFIGS v' w2)))
              = n_calls is_magic w + 1" for v'
    using n_calls_process_variants [of is_magic e c VARIANT_CONFIGS v' w2] w2 by simp
  show ?thesis
    using vf sc w1 w2 pv [of "update_status ''processing'' (update_status ''scanning'' v)"]
    by (auto simp: process_video_body_def process_video_try_def Let_def
        split: prod.splits sum.splits)
qed

lemma n_scan_process_video_body:
  assumes "fst (fst (validate_format e c w))"
  shows "n_calls is_scan (snd (snd (process_video_body e c (v, w)))) = n_calls is_scan w + 1"
proof -
  obtain msg w1 where vf: "validate_format e c w = ((True, msg), w1)"
    using assms by (metis (full_types) fst_conv prod.exhaust)
  obtain safe smsg w2 where sc: "scan_security e c w1 = ((safe, smsg), w2)"
    by (metis prod.exhaust)
  have w1: "n_calls is_scan w1 = n_calls is_scan w"
    using n_calls_validate_format [of is_scan e c w] vf by simp
  have w2: "n_calls is_scan w2 = n_calls is_scan w + 1"
    using n_calls_scan_security [of is_scan e c w1] sc w1 by simp
  have pv: "n_calls is_scan (snd (snd (process_variants e c VARIANT_CONFIGS v' w2)))
              = n_calls is_scan w + 1" for v'
    using n_calls_process_variants [of is_scan e c VARIANT_CONFIGS v' w2] w2 by simp
  show ?thesis
    using vf sc w1 w2 pv [of "update_status ''processing'' (update_status ''scanning'' v)"]
    by (auto simp: process_video_body_def process_video_try_def Let_def
        split: prod.splits sum.splits)
qed

lemma process_video_body_validation_stops:
  assumes "\<not> fst (fst (validate_format e c w))"
    and "\<not> P EvMagic" "\<not> P EvProbe" "\<And>vid. \<not> P (EvCleanup vid)"
  shows "n_calls P (snd (snd (process_video_body e c (v, w)))) = n_calls P w"
proof -
  obtain msg w1 where vf: "validate_format e c w = ((False, msg), w1)"
    using assms(1) by (metis (full_types) fst_conv prod.exhaust)
  have "n_calls P w1 = n_calls P w"
    using n_calls_validate_format [of P e c w] vf assms by simp
  with vf assms show ?thesis
    by (simp add: process_video_body_validation_rejects)
qed

text \<open>A count that every attempt raises by \<open>k\<close> is raised by \<open>3 * k\<close> in a run.\<close>

lemma process_video_counts:
  assumes body: "\<And>v w. n_calls P (snd (snd (process_video_body e c (v, w)))) = n_calls P w + k"
    and slp: "\<And>d. \<not> P (EvSleep d)"
  shows "n_calls P (snd (snd (process_video e c v w))) = n_calls P w + 3 * k"
proof -
  obtain ex1 w1 ex2 w2 ex3 w3 where
    a1: "process_video_body e c (v, w) = (Inl ex1, v\<lparr>status := ''failed''\<rparr>, w1)"
    and a2: "process_video_body e c (v\<lparr>status := ''failed''\<rparr>, sleep 1 w1)
           = (Inl ex2, v\<lparr>status := ''failed''\<rparr>, w2)"
    and a3: "process_video_body e c (v\<lparr>status := ''failed''\<rparr>, sleep 2 w2)
           = (Inl ex3, v\<lparr>status := ''failed''\<rparr>, w3)"
    and r: "process_video e c v w = (Inl ex3, v\<lparr>status := ''failed''\<rparr>, sleep 4 w3)"
    by (rule process_video_unroll)
  have n1: "n_calls P w1 = n_calls P w + k"
    using body [of v w] a1 by simp
  have n2: "n_calls P w2 = n_calls P w1 + k"
    using body [of "v\<lparr>status := ''failed''\<rparr>" "sleep 1 w1"] a2 slp by simp
  have n3: "n_calls P w3 = n_calls P w2 + k"
    using body [of "v\<lparr>status := ''failed''\<rparr>" "sleep 2 w2"] a3 slp by simp
  show ?thesis
    using r n1 n2 n3 slp by simp
qed

subsection \<open>Three attempts\<close>

lemma validate_format_unsupported:
  assumes "magic_from_buffer e (take 2048 c) = Inr m" and "m \<notin> set SUPPORTED_MIME_TYPES"
  shows "validate_format e c w = ((False, ''Unsupported MIME type: '' @ m), call EvMagic w)"
  using assms by (simp add: validate_format_def)

lemma process_video_unsupported:
  assumes "magic_from_buffer e (take 2048 c) = Inr m" and "m \<notin> set SUPPORTED_MIME_TYPES"
  shows "fst (process_video e c v w)
           = Inl (ValueError (''Video validation failed: Unsupported MIME type: '' @ m))"
    and "n_calls is_scan (snd (snd (process_video e c v w))) = n_calls is_scan w"
    and "n_calls is_transcode (snd (snd (process_video e c v w))) = n_calls is_transcode w"
    and "n_calls is_upload (snd (snd (process_video e c v w))) = n_calls is_upload w"
proof -
  have rej: "\<not> fst (fst (validate_format e c w'))" for w'
    by (simp add: validate_format_unsupported [OF assms])
  obtain ex1 w1 ex2 w2 ex3 w3 where
    a3: "process_video_body e c (v\<lparr>status := ''failed''\<rparr>, sleep 2 w2)
           = (Inl ex3, v\<lparr>status := ''failed''\<rparr>, w3)"
    and r: "process_video e c v w = (Inl ex3, v\<lparr>status := ''failed''\<rparr>, sleep 4 w3)"
    by (rule process_video_unroll)
  show "fst (process_video e c v w)
           = Inl (ValueError (''Video validation failed: Unsupported MIME type: '' @ m))"
    using a3 r
    by (simp add: process_video_body_validation_rejects [OF validate_format_unsupported [OF assms]])
  show "n_calls is_scan (snd (snd (process_video e c v w))) = n_calls is_scan w"
    using process_video_counts [of is_scan e c 0 v w]
      process_video_body_validation_stops [OF rej, of is_scan]
    by simp
  show "n_calls is_transcode (snd (snd (process_video e c v w))) = n_calls is_transcode w"
    using process_video_counts [of is_transcode e c 0 v w]
      process_video_body_validation_stops [OF rej, of is_transcode]
    by simp
  show "n_calls is_upload (snd (snd (process_video e c v w))) = n_calls is_upload w"
    using process_video_counts [of is_upload e c 0 v w]
      process_video_body_validation_stops [OF rej, of is_upload]
    by simp
qed

lemma env_pdf_unsupported:
  "magic_from_buffer env_pdf (take 2048 content0) = Inr ''application/pdf''
   \<and> ''application/pdf'' \<notin> set SUPPORTED_MIME_TYPES"
  by (simp add: env_pdf_def SUPPORTED_MIME_TYPES_def)

text \<open>
  C8. When the MIME type that libmagic finds in the first 2048 bytes is not in
  \<^verbatim>\<open>SUPPORTED_MIME_TYPES\<close>, \<^verbatim>\<open>validate_format\<close> answers not valid with the reason
  "Unsupported MIME type", and \<^verbatim>\<open>process_video\<close> raises the validation error with the
  status \<^verbatim>\<open>failed\<close> without one call of the scanner, the transcoder or the upload.
\<close>

theorem unsupported_format_stops_before_scan:
  assumes "magic_from_buffer e (take 2048 c) = Inr m" and "m \<notin> set SUPPORTED_MIME_TYPES"
  shows "validate_format e c w = ((False, ''Unsupported MIME type: '' @ m), call EvMagic w)
       \<and> fst (process_video e c v w)
           = Inl (ValueError (''Video validation failed: Unsupported MIME type: '' @ m))
       \<and> status (fst (snd (process_video e c v w))) = ''failed''
       \<and> n_calls is_scan (snd (snd (process_video e c v w))) = n_calls is_scan w
       \<and> n_calls is_transcode (snd (snd (process_video e c v w))) = n_calls is_transcode w
       \<and> n_calls is_upload (snd (snd (process_video e c v w))) = n_calls is_upload w"
  using validate_format_unsupported [OF assms] process_video_unsupported [OF assms]
    process_video_fails [of e c v w]
  by auto

theorem unsupported_format_stops_before_scan_witness:
  "magic_from_buffer env_pdf (take 2048 content0) = Inr ''application/pdf''
   \<and> ''application/pdf'' \<notin> set SUPPORTED_MIME_TYPES
   \<and> validate_format env_pdf content0 world0
       = ((False, ''Unsupported MIME type: application/pdf''), \<lparr>calls = [EvMagic], logs = []\<rparr>)
   \<and> fst (process_video env_pdf content0 video0 world0)
       = Inl (ValueError ''Video validation failed: Unsupported MIME type: application/pdf'')
   \<and> status (fst (snd (process_video env_pdf content0 video0 world0))) = ''failed''
   \<and> n_calls is_scan (snd (snd (process_video env_pdf content0 video0 world0))) = 0
   \<and> n_calls is_transcode (snd (snd (process_video env_pdf content0 video0 world0))) = 0
   \<and> n_calls is_upload (snd (snd (process_video env_pdf content0 video0 world0))) = 0"
  using unsupported_format_stops_before_scan
      [of env_pdf content0 "''application/pdf''" world0 video0]
    env_pdf_unsupported
  by (simp add: world0_def n_calls_def call_def)

subsection \<open>Rejected inputs\<close>

lemma scan_security_rejects:
  assumes "scan_bytes e (calls w) c \<noteq> Inr False"
  shows "\<not> fst (fst (scan_security e c w))"
  using assms by (auto simp: scan_security_def Let_def split: sum.splits)

lemma process_video_gate_stops:
  assumes gate: "\<And>w. \<not> fst (fst (validate_format e c w))
         \<or> \<not> fst (fst (scan_security e c (snd (validate_format e c w))))"
  shows "n_calls is_transcode (snd (snd (process_video e c v w))) = n_calls is_transcode w"
    and "n_calls is_upload (snd (snd (process_video e c v w))) = n_calls is_upload w"
  using process_video_counts [of is_transcode e c 0 v w]
    process_video_counts [of is_upload e c 0 v w]
    process_video_body_gate_stops [OF gate, of is_transcode]
    process_video_body_gate_stops [OF gate, of is_upload]
  by simp_all

lemma process_video_validates_thrice:
  "n_calls is_magic (snd (snd (process_video e c v w))) = n_calls is_magic w + 3"
  using process_video_counts [of is_magic e c 1 v w] n_magic_process_video_body [of e c]
  by simp

lemma process_video_scans_thrice:
  assumes "\<And>w. fst (fst (validate_format e c w))"
  shows "n_calls is_scan (snd (snd (process_video e c v w))) = n_calls is_scan w + 3"
  using process_video_counts [of is_scan e c 1 v w] n_scan_process_video_body [OF assms]
  by simp

lemma process_video_rejected_rechecked:
  assumes "(\<forall>w. \<not> fst (fst (validate_format e c w)))
         \<or> (\<forall>w. \<not> fst (fst (scan_security e c w)))"
  shows "(\<exists>ex. fst (process_video e c v w) = Inl ex)
       \<and> status (fst (snd (process_video e c v w))) = ''failed''
       \<and> n_calls is_magic (snd (snd (process_video e c v w))) = n_calls is_magic w + 3
       \<and> ((\<forall>w. fst (fst (validate_format e c w)))
            \<longrightarrow> n_calls is_scan (snd (snd (process_video e c v w))) = n_calls is_scan w + 3)
       \<and> n_calls is_transcode (snd (snd (process_video e c v w))) = n_calls is_transcode w
       \<and> n_calls is_upload (snd (snd (process_video e c v w))) = n_calls is_upload w"
proof -
  have gate: "\<not> fst (fst (validate_format e c w'))
         \<or> \<not> fst (fst (scan_security e c (snd (validate_format e c w'))))" for w'
    using assms by blast
  show ?thesis
    using process_video_gate_stops [OF gate, of v w] process_video_validates_thrice [of e c v w]
      process_video_scans_thrice [of e c v w] process_video_fails [of e c v w]
    by auto
qed

lemma env_unsafe_gates:
  "(\<forall>w. fst (fst (validate_format env_unsafe content0 w)))
   \<and> (\<forall>w. \<not> fst (fst (scan_security env_unsafe content0 w)))"
  by (simp add: env_unsafe_def env_ok_def validate_format_def scan_security_def
      SUPPORTED_MIME_TYPES_def Let_def)

text \<open>
  C3, as the code has it. When validation or the scan rejects an input every time it is
  asked, each attempt of \<^verbatim>\<open>process_video\<close> stops at that gate, with no transcode and no
  upload, and the run ends \<^verbatim>\<open>failed\<close> with the gate's error. The judgment is retried
  all the same: the decorator runs the validation again in each of its three attempts,
  and the scan too when the validation passes.
\<close>

theorem rejected_input_is_checked_in_every_attempt:
  assumes "(\<forall>w. \<not> fst (fst (validate_format e c w)))
         \<or> (\<forall>w. \<not> fst (fst (scan_security e c w)))"
  shows "(\<exists>ex. fst (process_video e c v w) = Inl ex)
       \<and> status (fst (snd (process_video e c v w))) = ''failed''
       \<and> n_calls is_magic (snd (snd (process_video e c v w))) = n_calls is_magic w + 3
       \<and> ((\<forall>w. fst (fst (validate_format e c w)))
            \<longrightarrow> n_calls is_scan (snd (snd (process_video e c v w))) = n_calls is_scan w + 3)
       \<and> n_calls is_transcode (snd (snd (process_video e c v w))) = n_calls is_transcode w
       \<and> n_calls is_upload (snd (snd (process_video e c v w))) = n_calls is_upload w"
  using assms by (rule process_video_rejected_rechecked)

theorem rejected_input_is_checked_in_every_attempt_witness:
  "((\<forall>w. \<not> fst (fst (validate_format env_unsafe content0 w)))
     \<or> (\<forall>w. \<not> fst (fst (scan_security env_unsafe content0 w))))
   \<and> (\<forall>w. fst (fst (validate_format env_unsafe content0 w)))
   \<and> (\<exists>ex. fst (process_video env_unsafe content0 video0 world0) = Inl ex)
   \<and> status (fst (snd (process_video env_unsafe content0 video0 world0))) = ''failed''
   \<and> n_calls is_magic (snd (snd (process_video env_unsafe content0 video0 world0))) = 3
   \<and> n_calls is_scan (snd (snd (process_video env_unsafe content0 video0 world0))) = 3
   \<and> n_calls is_transcode (snd (snd (process_video env_unsafe content0 video0 world0))) = 0
   \<and> n_calls is_upload (snd (snd (process_video env_unsafe content0 video0 world0))) = 0"
  using rejected_input_is_checked_in_every_attempt [of env_unsafe content0 video0 world0]
    env_unsafe_gates
  by (simp add: world0_def n_calls_def)

text \<open>
  C3, as the claim has it, fails: the scanner reports malware, and the scanner has been
  called three times when \<^verbatim>\<open>process_video\<close> raises.
\<close>

theorem rejected_scan_is_retried:
  "n_calls is_scan world0 = 0
   \<and> n_calls is_scan (snd (snd (process_video env_unsafe content0 video0 world0))) = 3
   \<and> n_calls is_magic (snd (snd (process_video env_unsafe content0 video0 world0))) = 3"
  using process_video_rejected_rechecked [of env_unsafe content0 video0 world0] env_unsafe_gates
  by (simp add: world0_def n_calls_def)

text \<open>
  C5. A scanner that reports malware or raises, whenever it is asked about the input,
  makes \<^verbatim>\<open>scan_security\<close> answer not safe; \<^verbatim>\<open>process_video\<close> then ends with the status
  \<^verbatim>\<open>failed\<close> and the variants it started with, none for a new video, and has neither
  transcoded nor uploaded anything.
\<close>

theorem unsafe_scan_fails_closed:
  assumes "\<forall>tr. scan_bytes e tr c \<noteq> Inr False"
  shows "\<not> fst (fst (scan_security e c w))
       \<and> (\<exists>ex. fst (process_video e c v w) = Inl ex)
       \<and> status (fst (snd (process_video e c v w))) = ''failed''
       \<and> variants (fst (snd (process_video e c v w))) = variants v
       \<and> n_calls is_transcode (snd (snd (process_video e c v w))) = n_calls is_transcode w
       \<and> n_calls is_upload (snd (snd (process_video e c v w))) = n_calls is_upload w"
proof -
  have rej: "\<not> fst (fst (scan_security e c w'))" for w'
    using assms by (simp add: scan_security_rejects)
  then have gate: "\<not> fst (fst (validate_format e c w'))
         \<or> \<not> fst (fst (scan_security e c (snd (validate_format e c w'))))" for w'
    by blast
  show ?thesis
    using rej [of w] process_video_gate_stops [OF gate, of v w] process_video_fails [of e c v w]
    by auto
qed

lemma env_unsafe_scanner: "\<forall>tr. scan_bytes env_unsafe tr content0 \<noteq> Inr False"
  by (simp add: env_unsafe_def env_ok_def)

theorem unsafe_scan_fails_closed_witness:
  "(\<forall>tr. scan_bytes env_unsafe tr content0 \<noteq> Inr False)
   \<and> \<not> fst (fst (scan_security env_unsafe content0 world0))
   \<and> (\<exists>ex. fst (process_video env_unsafe content0 video0 world0) = Inl ex)
   \<and> status (fst (snd (process_video env_unsafe content0 video0 world0))) = ''failed''
   \<and> variants (fst (snd (process_video env_unsafe content0 video0 world0))) = []
   \<and> n_calls is_transcode (snd (snd (process_video env_unsafe content0 video0 world0))) = 0
   \<and> n_calls is_upload (snd (snd (process_video env_unsafe content0 video0 world0))) = 0"
  using unsafe_scan_fails_closed [OF env_unsafe_scanner, of world0 video0] env_unsafe_scanner
  by (simp add: world0_def video0_def n_calls_def)

subsection \<open>What a failed run leaves behind\<close>

lemma process_video_body_logs_error:
  assumes "process_video_body e c (v, w) = (Inl ex, v', w')"
  shows "(''Video processing failed: '' @ str_exn ex) \<in> set (logs w')"
proof -
  obtain r v1 w1 where t: "process_video_try e c v w = (r, v1, w1)"
    by (metis prod.exhaust)
  with assms have r: "r = Inl ex"
    by (cases r) (auto simp: process_video_body_def Let_def)
  have "w' = cleanup_failed_upload e (video_id (update_status ''failed'' v1))
               (log_msg (''Video processing failed: '' @ str_exn ex) w1)"
    using assms t r by (auto simp: process_video_body_def Let_def)
  then show ?thesis
    using logs_cleanup [of "log_msg (''Video processing failed: '' @ str_exn ex) w1" e
        "video_id (update_status ''failed'' v1)"]
    by auto
qed

lemma process_video_logs_error:
  "\<exists>ex. fst (process_video e c v w) = Inl ex
      \<and> (''Video processing failed: '' @ str_exn ex) \<in> set (logs (snd (snd (process_video e c v w))))"
proof -
  obtain ex1 w1 ex2 w2 ex3 w3 where
    a3: "process_video_body e c (v\<lparr>status := ''failed''\<rparr>, sleep 2 w2)
           = (Inl ex3, v\<lparr>status := ''failed''\<rparr>, w3)"
    and r: "process_video e c v w = (Inl ex3, v\<lparr>status := ''failed''\<rparr>, sleep 4 w3)"
    by (rule process_video_unroll)
  show ?thesis
    using r process_video_body_logs_error [OF a3] by simp
qed

lemma process_video_env_unsafe:
  "fst (process_video env_unsafe c v w)
     = Inl (ValueError ''Security scan failed: Malware detected in video content'')"
proof -
  have vf: "validate_format env_unsafe c w' = ((True, []), call EvProbe (call EvMagic w'))" for w'
    by (simp add: validate_format_def env_unsafe_def env_ok_def SUPPORTED_MIME_TYPES_def)
  have sc: "scan_security env_unsafe c w' =
      ((False, ''Malware detected in video content''),
       log_msg ''Security scan completed'' (call EvScan w'))" for w'
    by (simp add: scan_security_def env_unsafe_def env_ok_def)
  obtain ex1 w1 ex2 w2 ex3 w3 where
    a3: "process_video_body env_unsafe c (v\<lparr>status := ''failed''\<rparr>, sleep 2 w2)
           = (Inl ex3, v\<lparr>status := ''failed''\<rparr>, w3)"
    and r: "process_video env_unsafe c v w = (Inl ex3, v\<lparr>status := ''failed''\<rparr>, sleep 4 w3)"
    by (rule process_video_unroll)
  show ?thesis
    using a3 r by (simp add: process_video_body_scan_rejects [OF vf sc])
qed

lemma process_video_try_with_update_status:
  "process_video_try_with update_status e c v w = process_video_try e c v w"
  by (simp add: process_video_try_with_def process_video_try_def)

lemma process_video_body_with_update_status:
  "process_video_body_with update_status e c s = process_video_body e c s"
  by (simp add: process_video_body_with_def process_video_body_def
      process_video_try_with_update_status)

text \<open>
  The handler, whatever \<^verbatim>\<open>update_status\<close> does: it raises the error of the \<^verbatim>\<open>try\<close> block
  again, has logged it, and leaves the video that \<open>upd ''failed''\<close> makes of the video
  the \<^verbatim>\<open>try\<close> block left.
\<close>

lemma process_video_body_with_handler:
  assumes "process_video_try_with upd e c v w = (Inl ex, v1, w1)"
  shows "fst (process_video_body_with upd e c (v, w)) = Inl ex"
    and "fst (snd (process_video_body_with upd e c (v, w))) = upd ''failed'' v1"
    and "(''Video processing failed: '' @ str_exn ex)
           \<in> set (logs (snd (snd (process_video_body_with upd e c (v, w)))))"
proof -
  have b: "process_video_body_with upd e c (v, w) =
      (Inl ex, upd ''failed'' v1,
       cleanup_failed_upload e (video_id (upd ''failed'' v1))
         (log_msg (''Video processing failed: '' @ str_exn ex) w1))"
    using assms by (simp add: process_video_body_with_def Let_def)
  show "fst (process_video_body_with upd e c (v, w)) = Inl ex"
    by (simp add: b)
  show "fst (snd (process_video_body_with upd e c (v, w))) = upd ''failed'' v1"
    by (simp add: b)
  show "(''Video processing failed: '' @ str_exn ex)
           \<in> set (logs (snd (snd (process_video_body_with upd e c (v, w)))))"
    using logs_cleanup [of "log_msg (''Video processing failed: '' @ str_exn ex) w1" e
        "video_id (upd ''failed'' v1)"]
    by (auto simp: b)
qed

text \<open>After a rejection by a gate the \<^verbatim>\<open>try\<close> block has left \<open>upd ''scanning'' v\<close>.\<close>

lemma process_video_try_with_gate:
  assumes "process_video_try_with upd e c v w = (Inl ex, v1, w1)"
    and "\<not> fst (fst (validate_format e c w))
       \<or> \<not> fst (fst (scan_security e c (snd (validate_format e c w))))"
  shows "v1 = upd ''scanning'' v"
proof -
  obtain ok msg wa where vf: "validate_format e c w = ((ok, msg), wa)"
    by (metis prod.exhaust)
  obtain safe smsg wb where sc: "scan_security e c wa = ((safe, smsg), wb)"
    by (metis prod.exhaust)
  from assms(2) vf sc have "\<not> ok \<or> \<not> safe" by simp
  with assms(1) vf sc show ?thesis
    by (auto simp: process_video_try_with_def Let_def split: if_splits)
qed

lemma process_video_failed_run:
  assumes "process_video e c v w = (Inl ex, v', w')"
  shows "status v' = ''failed''"
    and "(''Video processing failed: '' @ str_exn ex) \<in> set (logs w')"
  using assms process_video_fails [of e c v w] process_video_logs_error [of e c v w]
  by auto

lemma process_video_try_env_unsafe:
  "process_video_try_with update_status env_unsafe content0 video0 world0 =
     (Inl (ValueError ''Security scan failed: Malware detected in video content''),
      video0\<lparr>status := ''scanning''\<rparr>,
      \<lparr>calls = [EvMagic, EvProbe, EvScan], logs = [''Security scan completed'']\<rparr>)"
  by (simp add: process_video_try_with_def validate_format_def scan_security_def
      env_unsafe_def env_ok_def SUPPORTED_MIME_TYPES_def update_status_def call_def
      log_msg_def world0_def Let_def)

lemma process_video_run_env_unsafe:
  "process_video env_unsafe content0 video0 world0 =
     (Inl (ValueError ''Security scan failed: Malware detected in video content''),
      video0\<lparr>status := ''failed''\<rparr>,
      snd (snd (process_video env_unsafe content0 video0 world0)))"
  using process_video_env_unsafe [of content0 video0 world0]
    process_video_fails [of env_unsafe content0 video0 world0]
  by auto

text \<open>
  C2, as the code has it. A run of \<^verbatim>\<open>process_video\<close> that ends with an exception
  leaves the status \<^verbatim>\<open>failed\<close> and the error in the log, under the message
  "Video processing failed: ...". The handler that does this gives the video neither
  the failing stage nor the error. Whatever the method \<^verbatim>\<open>update_status\<close> does, here the
  parameter \<open>upd\<close>, the video an attempt leaves is \<open>upd ''failed''\<close> of the video the
  \<^verbatim>\<open>try\<close> block left, and that is \<open>upd ''scanning''\<close> of the video it began with when
  the validator or the scanner has rejected the input: nothing in it, and nothing in
  \<^verbatim>\<open>processing_history\<close>, tells which stage failed or why.
\<close>

theorem failure_is_logged_and_leaves_video_unaware:
  assumes "process_video e c v w = (Inl ex, v', w')"
    and "process_video_try_with upd e c v w = (Inl ex1, v1, w1)"
  shows "status v' = ''failed''
       \<and> (''Video processing failed: '' @ str_exn ex) \<in> set (logs w')
       \<and> fst (process_video_body_with upd e c (v, w)) = Inl ex1
       \<and> fst (snd (process_video_body_with upd e c (v, w))) = upd ''failed'' v1
       \<and> (''Video processing failed: '' @ str_exn ex1)
           \<in> set (logs (snd (snd (process_video_body_with upd e c (v, w)))))
       \<and> ((\<not> fst (fst (validate_format e c w))
            \<or> \<not> fst (fst (scan_security e c (snd (validate_format e c w)))))
           \<longrightarrow> v1 = upd ''scanning'' v)"
  using process_video_failed_run [OF assms(1)] process_video_body_with_handler [OF assms(2)]
    process_video_try_with_gate [OF assms(2)]
  by blast

theorem failure_is_logged_and_leaves_video_unaware_witness:
  "process_video env_unsafe content0 video0 world0 =
     (Inl (ValueError ''Security scan failed: Malware detected in video content''),
      video0\<lparr>status := ''failed''\<rparr>,
      snd (snd (process_video env_unsafe content0 video0 world0)))
   \<and> process_video_try_with update_status env_unsafe content0 video0 world0 =
     (Inl (ValueError ''Security scan failed: Malware detected in video content''),
      video0\<lparr>status := ''scanning''\<rparr>,
      \<lparr>calls = [EvMagic, EvProbe, EvScan], logs = [''Security scan completed'']\<rparr>)
   \<and> \<not> fst (fst (scan_security env_unsafe content0
                    (snd (validate_format env_unsafe content0 world0))))
   \<and> status (video0\<lparr>status := ''failed''\<rparr>) = ''failed''
   \<and> ''Video processing failed: Security scan failed: Malware detected in video content''
       \<in> set (logs (snd (snd (process_video env_unsafe content0 video0 world0))))
   \<and> fst (snd (process_video_body_with update_status env_unsafe content0 (video0, world0)))
       = update_status ''failed'' (video0\<lparr>status := ''scanning''\<rparr>)
   \<and> video0\<lparr>status := ''scanning''\<rparr> = update_status ''scanning'' video0"
proof -
  have g: "\<not> fst (fst (scan_security env_unsafe content0
                    (snd (validate_format env_unsafe content0 world0))))"
    using env_unsafe_gates by blast
  note t = failure_is_logged_and_leaves_video_unaware
      [OF process_video_run_env_unsafe process_video_try_env_unsafe]
  from t have l: "(''Video processing failed: '' @ str_exn
        (ValueError ''Security scan failed: Malware detected in video content''))
       \<in> set (logs (snd (snd (process_video env_unsafe content0 video0 world0))))"
    and b: "fst (snd (process_video_body_with update_status env_unsafe content0 (video0, world0)))
       = update_status ''failed'' (video0\<lparr>status := ''scanning''\<rparr>)"
    and s: "video0\<lparr>status := ''scanning''\<rparr> = update_status ''scanning'' video0"
    using g by blast+
  from l have l': "''Video processing failed: Security scan failed: Malware detected in video content''
       \<in> set (logs (snd (snd (process_video env_unsafe content0 video0 world0))))"
    by simp
  show ?thesis
    using process_video_run_env_unsafe process_video_try_env_unsafe g l' b s by simp
qed

lemma process_video_env_pdf:
  "fst (snd (process_video env_pdf content0 video0 world0)) = video0\<lparr>status := ''failed''\<rparr>
   \<and> fst (process_video env_pdf content0 video0 world0)
       = Inl (ValueError ''Video validation failed: Unsupported MIME type: application/pdf'')"
  using process_video_unsupported(1) [of env_pdf content0 "''application/pdf''" video0 world0]
    env_pdf_unsupported process_video_fails [of env_pdf content0 video0 world0]
  by auto

text \<open>
  C2, as the claim has it, fails. The scanner reports malware: the run ends
  \<^verbatim>\<open>failed\<close>, and \<^verbatim>\<open>processing_history\<close> holds the two entries of the upload and
  nothing about the scan or its error. A PDF file, which the validator rejects, leaves
  the very same video.
\<close>

theorem failed_run_adds_no_history_entry:
  "fst (process_video env_unsafe content0 video0 world0)
     = Inl (ValueError ''Security scan failed: Malware detected in video content'')
   \<and> status (fst (snd (process_video env_unsafe content0 video0 world0))) = ''failed''
   \<and> processing_history (fst (snd (process_video env_unsafe content0 video0 world0)))
       = [(''upload_started'', HUploadStarted), (''file_validation'', HFileValidation [])]
   \<and> fst (process_video env_pdf content0 video0 world0)
       = Inl (ValueError ''Video validation failed: Unsupported MIME type: application/pdf'')
   \<and> fst (snd (process_video env_pdf content0 video0 world0))
       = fst (snd (process_video env_unsafe content0 video0 world0))"
  using process_video_env_unsafe [of content0 video0 world0]
    process_video_fails [of env_unsafe content0 video0 world0] process_video_env_pdf
  by (auto simp: video0_def)

subsection \<open>The empty buffer\<close>

lemma env_empty_unsupported:
  "magic_from_buffer env_empty (take 2048 []) = Inr ''application/x-empty''
   \<and> ''application/x-empty'' \<notin> set SUPPORTED_MIME_TYPES"
  by (simp add: env_empty_def SUPPORTED_MIME_TYPES_def)

lemma validate_video_file_empty:
  "validate_video_file magic lower [] filename strict = (False, ''Empty file content'', [])"
  by (simp add: validate_video_file_def)

text \<open>
  C9. The claim: the empty buffer is rejected with an empty-input reason before any
  scan. \<^verbatim>\<open>validate_video_file\<close> does so in its first line. \<^verbatim>\<open>validate_format\<close>, the
  validation of the pipeline, has no such test: it hands the empty prefix to libmagic
  and reports what libmagic makes of it, here an unsupported MIME type, and that is the
  error \<^verbatim>\<open>process_video\<close> raises.
\<close>

theorem validate_format_empty_buffer:
  "validate_format env_empty [] world0
     = ((False, ''Unsupported MIME type: application/x-empty''),
        \<lparr>calls = [EvMagic], logs = []\<rparr>)
   \<and> fst (process_video env_empty [] video0 world0)
       = Inl (ValueError ''Video validation failed: Unsupported MIME type: application/x-empty'')
   \<and> validate_video_file (magic_from_buffer env_empty) (str_lower env_empty) [] ''clip.mp4'' True
       = (False, ''Empty file content'', [])"
  using validate_format_unsupported [of env_empty "[]" "''application/x-empty''" world0]
    process_video_unsupported(1) [of env_empty "[]" "''application/x-empty''" video0 world0]
    env_empty_unsupported validate_video_file_empty
  by (simp add: world0_def call_def)

subsection \<open>The variants of a video\<close>

lemma add_variant_appends:
  assumes "add_variant v q u md dc = Inr (var, v')"
  shows "variants v' = variants v @ [var] \<and> quality var = q"
  using assms by (auto simp: add_variant_def Let_def split: if_splits)








subsection \<open>A transcoder that fails\<close>

lemma generate_variant_body_fails:
  assumes "ffmpeg_run e (calls w) c config = Inl ex"
  shows "generate_variant_body e c q config w =
     (Inl ex, log_msg (''Variant generation failed: '' @ str_exn ex) (call (EvTranscode q) w))"
  using assms by (simp add: generate_variant_body_def Let_def)

lemma generate_variant_always_fails:
  assumes "\<forall>tr. \<exists>ex. ffmpeg_run e tr c config = Inl ex"
  shows "\<exists>ex w'. generate_variant e c q config w = (Inl ex, w')
           \<and> calls w' = calls w @ [EvTranscode q, EvSleep 1, EvTranscode q, EvSleep 2,
                                    EvTranscode q, EvSleep 4]"
proof -
  have step: "\<exists>ex. generate_variant_body e c q config w0 =
     (Inl ex, log_msg (''Variant generation failed: '' @ str_exn ex) (call (EvTranscode q) w0))"
    for w0
    using assms generate_variant_body_fails by metis
  obtain ex1 w1 where a1: "generate_variant_body e c q config w = (Inl ex1, w1)"
    and c1: "calls w1 = calls w @ [EvTranscode q]"
    using step [of w] by auto
  obtain ex2 w2 where a2: "generate_variant_body e c q config (sleep 1 w1) = (Inl ex2, w2)"
    and c2: "calls w2 = calls (sleep 1 w1) @ [EvTranscode q]"
    using step [of "sleep 1 w1"] by auto
  obtain ex3 w3 where a3: "generate_variant_body e c q config (sleep 2 w2) = (Inl ex3, w3)"
    and c3: "calls w3 = calls (sleep 2 w2) @ [EvTranscode q]"
    using step [of "sleep 2 w2"] by auto
  have "generate_variant e c q config w = (Inl ex3, sleep 4 w3)"
    unfolding generate_variant_def by (rule retry3_fail [OF a1 a2 a3])
  moreover have "calls (sleep 4 w3) = calls w @ [EvTranscode q, EvSleep 1, EvTranscode q,
      EvSleep 2, EvTranscode q, EvSleep 4]"
    by (simp add: c1 c2 c3)
  ultimately show ?thesis by blast
qed

lemma process_video_body_transcode_fails:
  assumes vf: "fst (fst (validate_format e c w))"
    and sc: "fst (fst (scan_security e c (snd (validate_format e c w))))"
    and ff: "\<forall>tr config. \<exists>ex. ffmpeg_run e tr c config = Inl ex"
  shows "n_calls is_transcode (snd (snd (process_video_body e c (v, w))))
           = n_calls is_transcode w + 3"
    and "n_calls is_upload (snd (snd (process_video_body e c (v, w)))) = n_calls is_upload w"
proof -
  obtain msg w1 where vf': "validate_format e c w = ((True, msg), w1)"
    using vf by (metis (full_types) fst_conv prod.exhaust)
  obtain smsg w2 where sc': "scan_security e c w1 = ((True, smsg), w2)"
    using sc vf' by (metis (full_types) fst_conv snd_conv prod.exhaust)
  have w1: "n_calls P w1 = n_calls P w" if "\<not> P EvMagic" "\<not> P EvProbe" for P
    using n_calls_validate_format [of P e c w] vf' that by simp
  have w2: "n_calls P w2 = n_calls P w" if "\<not> P EvMagic" "\<not> P EvProbe" "\<not> P EvScan" for P
    using n_calls_scan_security [of P e c w1] sc' w1 [of P] that by simp
  obtain config rest where cf: "VARIANT_CONFIGS = (''hd'', config) # rest"
    by (simp add: VARIANT_CONFIGS_def)
  obtain ex w3 where gv: "generate_variant e c ''hd'' config w2 = (Inl ex, w3)"
    and c3: "calls w3 = calls w2 @ [EvTranscode ''hd'', EvSleep 1, EvTranscode ''hd'', EvSleep 2,
                                    EvTranscode ''hd'', EvSleep 4]"
    using generate_variant_always_fails [of e c config "''hd''" w2] ff by blast
  have body: "process_video_body e c (v, w) =
     (Inl ex, v\<lparr>status := ''failed''\<rparr>,
      cleanup_failed_upload e (video_id v)
        (log_msg (''Video processing failed: '' @ str_exn ex) w3))"
    using vf' sc' gv
    by (simp add: process_video_body_def process_video_try_def cf update_status_def Let_def)
  show "n_calls is_transcode (snd (snd (process_video_body e c (v, w))))
           = n_calls is_transcode w + 3"
    using w2 [of is_transcode] by (simp add: body) (simp add: n_calls_def c3)
  show "n_calls is_upload (snd (snd (process_video_body e c (v, w)))) = n_calls is_upload w"
    using w2 [of is_upload] by (simp add: body) (simp add: n_calls_def c3)
qed

lemma process_video_transcode_fails:
  assumes vf: "\<forall>w. fst (fst (validate_format e c w))"
    and sc: "\<forall>w. fst (fst (scan_security e c w))"
    and ff: "\<forall>tr config. \<exists>ex. ffmpeg_run e tr c config = Inl ex"
  shows "n_calls is_magic (snd (snd (process_video e c v w))) = n_calls is_magic w + 3"
    and "n_calls is_scan (snd (snd (process_video e c v w))) = n_calls is_scan w + 3"
    and "n_calls is_transcode (snd (snd (process_video e c v w))) = n_calls is_transcode w + 9"
    and "n_calls is_upload (snd (snd (process_video e c v w))) = n_calls is_upload w"
proof -
  show "n_calls is_magic (snd (snd (process_video e c v w))) = n_calls is_magic w + 3"
    by (rule process_video_validates_thrice)
  show "n_calls is_scan (snd (snd (process_video e c v w))) = n_calls is_scan w + 3"
    using vf by (simp add: process_video_scans_thrice)
  show "n_calls is_transcode (snd (snd (process_video e c v w))) = n_calls is_transcode w + 9"
    using process_video_counts [of is_transcode e c 3 v w]
      process_video_body_transcode_fails(1) [of e c _ _] vf sc ff
    by simp
  show "n_calls is_upload (snd (snd (process_video e c v w))) = n_calls is_upload w"
    using process_video_counts [of is_upload e c 0 v w]
      process_video_body_transcode_fails(2) [of e c _ _] vf sc ff
    by simp
qed

lemma env_crash_behaviour:
  "(\<forall>w. fst (fst (validate_format env_crash content0 w)))
   \<and> (\<forall>w. fst (fst (scan_security env_crash content0 w)))
   \<and> (\<forall>tr config. \<exists>ex. ffmpeg_run env_crash tr content0 config = Inl ex)"
  by (simp add: env_crash_def env_ok_def validate_format_def scan_security_def
      SUPPORTED_MIME_TYPES_def Let_def)

text \<open>
  C4, as the code has it. The transcode of one profile, \<^verbatim>\<open>generate_variant\<close>, is tried
  three times, with sleeps of 1, 2 and 4 seconds after the failures; the upload is not
  part of that retry. A transcoder that fails every time makes the attempt of
  \<^verbatim>\<open>process_video\<close> fail, and \<^verbatim>\<open>process_video\<close> is retried as a whole: validation
  and scan run in each of its three attempts, the transcoder nine times in all, nothing
  is uploaded, and the status ends \<^verbatim>\<open>failed\<close>.
\<close>

theorem failing_transcode_is_retried_inside_retried_run:
  assumes "\<forall>w. fst (fst (validate_format e c w))"
    and "\<forall>w. fst (fst (scan_security e c w))"
    and "\<forall>tr config. \<exists>ex. ffmpeg_run e tr c config = Inl ex"
  shows "(\<exists>ex w'. generate_variant e c q config w = (Inl ex, w')
           \<and> calls w' = calls w @ [EvTranscode q, EvSleep 1, EvTranscode q, EvSleep 2,
                                    EvTranscode q, EvSleep 4])
       \<and> (\<exists>ex. fst (process_video e c v w) = Inl ex)
       \<and> status (fst (snd (process_video e c v w))) = ''failed''
       \<and> n_calls is_magic (snd (snd (process_video e c v w))) = n_calls is_magic w + 3
       \<and> n_calls is_scan (snd (snd (process_video e c v w))) = n_calls is_scan w + 3
       \<and> n_calls is_transcode (snd (snd (process_video e c v w))) = n_calls is_transcode w + 9
       \<and> n_calls is_upload (snd (snd (process_video e c v w))) = n_calls is_upload w"
proof -
  have "\<forall>tr. \<exists>ex. ffmpeg_run e tr c config = Inl ex"
    using assms(3) by blast
  then show ?thesis
    using generate_variant_always_fails [of e c config q w]
      process_video_transcode_fails [OF assms, of v w] process_video_fails [of e c v w]
    by auto
qed

theorem failing_transcode_is_retried_inside_retried_run_witness:
  "(\<forall>w. fst (fst (validate_format env_crash content0 w)))
   \<and> (\<forall>w. fst (fst (scan_security env_crash content0 w)))
   \<and> (\<forall>tr config. \<exists>ex. ffmpeg_run env_crash tr content0 config = Inl ex)
   \<and> (\<exists>ex w'. generate_variant env_crash content0 ''hd'' (snd (hd VARIANT_CONFIGS)) world0
                 = (Inl ex, w')
           \<and> calls w' = [EvTranscode ''hd'', EvSleep 1, EvTranscode ''hd'', EvSleep 2,
                         EvTranscode ''hd'', EvSleep 4])
   \<and> (\<exists>ex. fst (process_video env_crash content0 video0 world0) = Inl ex)
   \<and> status (fst (snd (process_video env_crash content0 video0 world0))) = ''failed''
   \<and> n_calls is_magic (snd (snd (process_video env_crash content0 video0 world0))) = 3
   \<and> n_calls is_scan (snd (snd (process_video env_crash content0 video0 world0))) = 3
   \<and> n_calls is_transcode (snd (snd (process_video env_crash content0 video0 world0))) = 9
   \<and> n_calls is_upload (snd (snd (process_video env_crash content0 video0 world0))) = 0"
  using failing_transcode_is_retried_inside_retried_run
      [of env_crash content0 "''hd''" "snd (hd VARIANT_CONFIGS)" world0 video0]
    env_crash_behaviour
  by (simp add: world0_def n_calls_def)

text \<open>
  C4, as the claim has it, fails: with a transcoder that crashes, the validation and
  the scan, which the retry was not to wrap, have each run three times, and the
  transcoder nine times, not three.
\<close>

theorem failed_unit_reruns_validation_and_scan:
  "n_calls is_magic (snd (snd (process_video env_crash content0 video0 world0))) = 3
   \<and> n_calls is_scan (snd (snd (process_video env_crash content0 video0 world0))) = 3
   \<and> n_calls is_transcode (snd (snd (process_video env_crash content0 video0 world0))) = 9"
  using process_video_transcode_fails [of env_crash content0 video0 world0] env_crash_behaviour
  by (simp add: world0_def n_calls_def)

subsection \<open>Cleanup after a failure\<close>

text \<open>
  Two worlds with the same call log, and two environments that differ in the outcome
  of the deletion only, cannot be told apart by the pipeline: the results agree and
  the call logs stay the same.
\<close>

lemma retry_from_agree:
  assumes f: "\<And>s t. R s t \<Longrightarrow> fst (f s) = fst (g t) \<and> R (snd (f s)) (snd (g t))"
    and slp: "\<And>d s t. R s t \<Longrightarrow> R (slp d s) (slp d t)"
    and st: "R s t"
  shows "fst (retry_from config slp f n attempt lastex s)
           = fst (retry_from config slp g n attempt lastex t)
       \<and> R (snd (retry_from config slp f n attempt lastex s))
            (snd (retry_from config slp g n attempt lastex t))"
  using st
proof (induction n arbitrary: attempt lastex s t)
  case 0
  then show ?case by (simp split: option.splits)
next
  case (Suc n)
  obtain r s' where fs: "f s = (r, s')" by (cases "f s")
  obtain r2 t' where gt: "g t = (r2, t')" by (cases "g t")
  from f [OF Suc.prems] fs gt have eq: "r2 = r" and rel: "R s' t'" by simp_all
  show ?case
  proof (cases r)
    case (Inl ex)
    with fs gt eq Suc.IH [OF slp [OF rel]] show ?thesis by (simp add: Let_def)
  next
    case (Inr res)
    with fs gt eq rel show ?thesis by simp
  qed
qed

lemma validate_format_agree:
  assumes "calls w = calls w2"
  shows "fst (validate_format (e\<lparr>storage_delete := d\<rparr>) c w) = fst (validate_format e c w2)
       \<and> calls (snd (validate_format (e\<lparr>storage_delete := d\<rparr>) c w))
           = calls (snd (validate_format e c w2))"
  using assms by (simp add: validate_format_def Let_def split: sum.splits prod.splits)

lemma scan_security_agree:
  assumes "calls w = calls w2"
  shows "fst (scan_security (e\<lparr>storage_delete := d\<rparr>) c w) = fst (scan_security e c w2)
       \<and> calls (snd (scan_security (e\<lparr>storage_delete := d\<rparr>) c w))
           = calls (snd (scan_security e c w2))"
  using assms by (simp add: scan_security_def Let_def split: sum.splits)

lemma generate_variant_body_agree:
  assumes "calls w = calls w2"
  shows "fst (generate_variant_body (e\<lparr>storage_delete := d\<rparr>) c q config w)
           = fst (generate_variant_body e c q config w2)
       \<and> calls (snd (generate_variant_body (e\<lparr>storage_delete := d\<rparr>) c q config w))
           = calls (snd (generate_variant_body e c q config w2))"
  using assms by (simp add: generate_variant_body_def Let_def split: sum.splits prod.splits)

lemma generate_variant_agree:
  assumes "calls w = calls w2"
  shows "fst (generate_variant (e\<lparr>storage_delete := d\<rparr>) c q config w)
           = fst (generate_variant e c q config w2)
       \<and> calls (snd (generate_variant (e\<lparr>storage_delete := d\<rparr>) c q config w))
           = calls (snd (generate_variant e c q config w2))"
  unfolding generate_variant_def retry_def
  by (rule retry_from_agree [where R = "\<lambda>a b. calls a = calls b"])
    (simp_all add: generate_variant_body_agree assms)

lemma upload_variant_agree:
  assumes "calls w = calls w2"
  shows "fst (upload_variant (e\<lparr>storage_delete := d\<rparr>) b vid q w) = fst (upload_variant e b vid q w2)
       \<and> calls (snd (upload_variant (e\<lparr>storage_delete := d\<rparr>) b vid q w))
           = calls (snd (upload_variant e b vid q w2))"
  using assms by (simp add: upload_variant_def Let_def split: option.splits)

lemma process_variants_agree:
  assumes "calls w = calls w2"
  shows "fst (process_variants (e\<lparr>storage_delete := d\<rparr>) c cfgs v w)
           = fst (process_variants e c cfgs v w2)
       \<and> fst (snd (process_variants (e\<lparr>storage_delete := d\<rparr>) c cfgs v w))
           = fst (snd (process_variants e c cfgs v w2))
       \<and> calls (snd (snd (process_variants (e\<lparr>storage_delete := d\<rparr>) c cfgs v w)))
           = calls (snd (snd (process_variants e c cfgs v w2)))"
  using assms
proof (induction cfgs arbitrary: v w w2)
  case Nil
  then show ?case by simp
next
  case (Cons qc rest)
  let ?e = "e\<lparr>storage_delete := d\<rparr>"
  obtain r wa where g1: "generate_variant ?e c (fst qc) (snd qc) w = (r, wa)"
    by (metis prod.exhaust)
  obtain r2 wb where g2: "generate_variant e c (fst qc) (snd qc) w2 = (r2, wb)"
    by (metis prod.exhaust)
  from generate_variant_agree [OF Cons.prems, where e = e and d = d and c = c and q = "fst qc"
      and config = "snd qc"] g1 g2
  have r: "r2 = r" and ab: "calls wa = calls wb" by simp_all
  show ?case
  proof (cases r)
    case (Inl ex)
    with g1 g2 r ab show ?thesis by (simp add: Let_def)
  next
    case (Inr res)
    obtain out md where res: "res = (out, md)" by (cases res)
    obtain u wc where u1: "upload_variant ?e out (video_id v) (fst qc) wa = (u, wc)"
      by (metis prod.exhaust)
    obtain u2 wd where u2: "upload_variant e out (video_id v) (fst qc) wb = (u2, wd)"
      by (metis prod.exhaust)
    from upload_variant_agree [OF ab, where e = e and d = d and b = out and vid = "video_id v"
        and q = "fst qc"] u1 u2
    have u: "u2 = u" and cd: "calls wc = calls wd" by simp_all
    obtain ok err uo where ut: "u = (ok, err, uo)" by (metis prod.exhaust)
    show ?thesis
      using g1 g2 r Inr res u1 u2 u ut cd Cons.IH [OF cd]
      by (simp add: Let_def split: option.splits sum.splits prod.splits)
  qed
qed

lemma process_video_try_agree:
  assumes "calls w = calls w2"
  shows "fst (process_video_try (e\<lparr>storage_delete := d\<rparr>) c v w) = fst (process_video_try e c v w2)
       \<and> fst (snd (process_video_try (e\<lparr>storage_delete := d\<rparr>) c v w))
           = fst (snd (process_video_try e c v w2))
       \<and> calls (snd (snd (process_video_try (e\<lparr>storage_delete := d\<rparr>) c v w)))
           = calls (snd (snd (process_video_try e c v w2)))"
proof -
  let ?e = "e\<lparr>storage_delete := d\<rparr>"
  obtain a wa where v1: "validate_format ?e c w = (a, wa)" by (metis prod.exhaust)
  obtain a2 wb where v2: "validate_format e c w2 = (a2, wb)" by (metis prod.exhaust)
  from validate_format_agree [OF assms, where e = e and d = d and c = c] v1 v2
  have a: "a2 = a" and ab: "calls wa = calls wb" by simp_all
  obtain ok msg where at: "a = (ok, msg)" by (metis prod.exhaust)
  obtain b wc where s1: "scan_security ?e c wa = (b, wc)" by (metis prod.exhaust)
  obtain b2 wd where s2: "scan_security e c wb = (b2, wd)" by (metis prod.exhaust)
  from scan_security_agree [OF ab, where e = e and d = d and c = c] s1 s2
  have b: "b2 = b" and cd: "calls wc = calls wd" by simp_all
  obtain safe smsg where bt: "b = (safe, smsg)" by (metis prod.exhaust)
  note pv = process_variants_agree [OF cd, where e = e and d = d and c = c
      and cfgs = VARIANT_CONFIGS
      and v = "update_status ''processing'' (update_status ''scanning'' v)"]
  show ?thesis
    using v1 v2 a at ab s1 s2 b bt cd pv
    by (auto simp: process_video_try_def Let_def split: sum.splits prod.splits)
qed

lemma process_video_body_agree:
  assumes "calls w = calls w2"
  shows "fst (process_video_body (e\<lparr>storage_delete := d\<rparr>) c (v, w))
           = fst (process_video_body e c (v, w2))
       \<and> fst (snd (process_video_body (e\<lparr>storage_delete := d\<rparr>) c (v, w)))
           = fst (snd (process_video_body e c (v, w2)))
       \<and> calls (snd (snd (process_video_body (e\<lparr>storage_delete := d\<rparr>) c (v, w))))
           = calls (snd (snd (process_video_body e c (v, w2))))"
  using process_video_try_agree [OF assms, where e = e and d = d and c = c and v = v]
  by (auto simp: process_video_body_def Let_def split: sum.splits prod.splits)

lemma process_video_agree:
  "fst (process_video (e\<lparr>storage_delete := d\<rparr>) c v w) = fst (process_video e c v w)
   \<and> fst (snd (process_video (e\<lparr>storage_delete := d\<rparr>) c v w)) = fst (snd (process_video e c v w))
   \<and> calls (snd (snd (process_video (e\<lparr>storage_delete := d\<rparr>) c v w)))
       = calls (snd (snd (process_video e c v w)))"
proof -
  let ?R = "\<lambda>s t :: video \<times> world. fst s = fst t \<and> calls (snd s) = calls (snd t)"
  have f: "fst (process_video_body (e\<lparr>storage_delete := d\<rparr>) c s) = fst (process_video_body e c t)
       \<and> ?R (snd (process_video_body (e\<lparr>storage_delete := d\<rparr>) c s))
             (snd (process_video_body e c t))"
    if "?R s t" for s t
    using that process_video_body_agree [where e = e and d = d and c = c and v = "fst s"
        and w = "snd s" and ?w2.0 = "snd t"]
    by (cases s; cases t) auto
  have slp: "?R (sleep_video k s) (sleep_video k t)" if "?R s t" for k s t
    using that by (simp add: sleep_video_def)
  have "fst (retry_from RETRY_CONFIG sleep_video (process_video_body (e\<lparr>storage_delete := d\<rparr>) c)
               (max_attempts RETRY_CONFIG) 0 None (v, w))
           = fst (retry_from RETRY_CONFIG sleep_video (process_video_body e c)
               (max_attempts RETRY_CONFIG) 0 None (v, w))
       \<and> ?R (snd (retry_from RETRY_CONFIG sleep_video
                    (process_video_body (e\<lparr>storage_delete := d\<rparr>) c)
                    (max_attempts RETRY_CONFIG) 0 None (v, w)))
             (snd (retry_from RETRY_CONFIG sleep_video (process_video_body e c)
                    (max_attempts RETRY_CONFIG) 0 None (v, w)))"
    by (rule retry_from_agree [where R = ?R, OF f slp]) simp_all
  then show ?thesis
    by (simp add: process_video_def retry_def)
qed

lemma process_video_cleans_up:
  "n_calls is_cleanup (snd (snd (process_video e c v w))) = n_calls is_cleanup w + 3"
proof -
  have "n_calls is_cleanup (snd (snd (process_video_body e c (v', w'))))
          = n_calls is_cleanup w' + 1" for v' w'
  proof -
    obtain ex st w1 where t: "process_video_try e c v' w' = (Inl ex, v'\<lparr>status := st\<rparr>, w1)"
      using process_video_try_fails by blast
    have "n_calls is_cleanup w1 = n_calls is_cleanup w'"
      using n_calls_process_video_try [of is_cleanup e c v' w'] t by simp
    with t show ?thesis
      by (simp add: process_video_body_def Let_def)
  qed
  then show ?thesis
    using process_video_counts [of is_cleanup e c 1 v w] by simp
qed

lemma process_video_body_logs_cleanup_failure:
  assumes "\<forall>tr vid. storage_delete e tr vid = Some x"
  shows "(''Cleanup failed: '' @ str_exn x) \<in> set (logs (snd (snd (process_video_body e c (v, w)))))"
proof -
  obtain ex st w1 where t: "process_video_try e c v w = (Inl ex, v\<lparr>status := st\<rparr>, w1)"
    using process_video_try_fails by blast
  show ?thesis
    using assms t
    by (simp add: process_video_body_def cleanup_failed_upload_def Let_def)
qed

lemma process_video_logs_cleanup_failure:
  assumes "\<forall>tr vid. storage_delete e tr vid = Some x"
  shows "(''Cleanup failed: '' @ str_exn x) \<in> set (logs (snd (snd (process_video e c v w))))"
proof -
  obtain ex1 w1 ex2 w2 ex3 w3 where
    a3: "process_video_body e c (v\<lparr>status := ''failed''\<rparr>, sleep 2 w2)
           = (Inl ex3, v\<lparr>status := ''failed''\<rparr>, w3)"
    and r: "process_video e c v w = (Inl ex3, v\<lparr>status := ''failed''\<rparr>, sleep 4 w3)"
    by (rule process_video_unroll)
  show ?thesis
    using r a3
      process_video_body_logs_cleanup_failure [OF assms, of c "v\<lparr>status := ''failed''\<rparr>" "sleep 2 w2"]
    by simp
qed

text \<open>
  C7. Every failed attempt of \<^verbatim>\<open>process_video\<close> calls the cleanup of the storage
  service, three times in a run. When the deletion fails each time, the failure is in
  the log and nowhere else: the error that \<^verbatim>\<open>process_video\<close> raises, the video with its
  status \<^verbatim>\<open>failed\<close> and the calls made are the same as in a world that differs in the
  outcome of the deletion only, one in which it succeeds for instance.
\<close>

theorem cleanup_failure_is_only_logged:
  assumes "\<forall>tr vid. d tr vid = Some x"
  shows "fst (process_video (e\<lparr>storage_delete := d\<rparr>) c v w) = fst (process_video e c v w)
       \<and> fst (snd (process_video (e\<lparr>storage_delete := d\<rparr>) c v w))
           = fst (snd (process_video e c v w))
       \<and> status (fst (snd (process_video (e\<lparr>storage_delete := d\<rparr>) c v w))) = ''failed''
       \<and> calls (snd (snd (process_video (e\<lparr>storage_delete := d\<rparr>) c v w)))
           = calls (snd (snd (process_video e c v w)))
       \<and> n_calls is_cleanup (snd (snd (process_video (e\<lparr>storage_delete := d\<rparr>) c v w)))
           = n_calls is_cleanup w + 3
       \<and> (''Cleanup failed: '' @ str_exn x)
           \<in> set (logs (snd (snd (process_video (e\<lparr>storage_delete := d\<rparr>) c v w))))"
proof -
  let ?e = "e\<lparr>storage_delete := d\<rparr>"
  have del: "\<forall>tr vid. storage_delete ?e tr vid = Some x"
    using assms by simp
  have st: "status (fst (snd (process_video ?e c v w))) = ''failed''"
    using process_video_fails [of ?e c v w] by auto
  note ag = process_video_agree [where e = e and d = d and c = c and v = v and w = w]
  note cl = process_video_cleans_up [of ?e c v w]
  note lg = process_video_logs_cleanup_failure [OF del, where c = c and v = v and w = w]
  show ?thesis
    using ag st cl lg by blast
qed

theorem cleanup_failure_is_only_logged_witness:
  "(\<forall>tr vid. (\<lambda>tr vid. Some (ExternalError ''AccessDenied'')) tr vid
       = Some (ExternalError ''AccessDenied''))
   \<and> fst (process_video env_no_delete content0 video0 world0)
       = Inl (ValueError ''Security scan failed: Malware detected in video content'')
   \<and> fst (process_video env_no_delete content0 video0 world0)
       = fst (process_video env_unsafe content0 video0 world0)
   \<and> status (fst (snd (process_video env_no_delete content0 video0 world0))) = ''failed''
   \<and> calls (snd (snd (process_video env_no_delete content0 video0 world0)))
       = calls (snd (snd (process_video env_unsafe content0 video0 world0)))
   \<and> n_calls is_cleanup (snd (snd (process_video env_no_delete content0 video0 world0))) = 3
   \<and> ''Cleanup failed: AccessDenied''
       \<in> set (logs (snd (snd (process_video env_no_delete content0 video0 world0))))"
proof -
  let ?d = "\<lambda>(tr :: event list) (vid :: string). Some (ExternalError ''AccessDenied'')"
  let ?r = "process_video env_no_delete content0 video0 world0"
  have h: "\<forall>tr vid. ?d tr vid = Some (ExternalError ''AccessDenied'')"
    by simp
  have e: "env_no_delete = env_unsafe\<lparr>storage_delete := ?d\<rparr>"
    by (simp add: env_no_delete_def)
  note t = cleanup_failure_is_only_logged [OF h, where e = env_unsafe and c = content0
      and v = video0 and w = world0, folded e]
  from t have t1: "fst ?r = fst (process_video env_unsafe content0 video0 world0)"
    and t3: "status (fst (snd ?r)) = ''failed''"
    and t4: "calls (snd (snd ?r)) = calls (snd (snd (process_video env_unsafe content0 video0 world0)))"
    and t5: "n_calls is_cleanup (snd (snd ?r)) = n_calls is_cleanup world0 + 3"
    and t6: "(''Cleanup failed: '' @ str_exn (ExternalError ''AccessDenied'')) \<in> set (logs (snd (snd ?r)))"
    by blast+
  have n0: "n_calls is_cleanup world0 = 0"
    by (simp add: world0_def n_calls_def)
  from t1 have t0: "fst ?r = Inl (ValueError ''Security scan failed: Malware detected in video content'')"
    by (simp only: process_video_env_unsafe)
  from t6 have t7: "''Cleanup failed: AccessDenied'' \<in> set (logs (snd (snd ?r)))"
    by simp
  from t5 n0 have t8: "n_calls is_cleanup (snd (snd ?r)) = 3"
    by simp
  show ?thesis
    using h t0 t1 t3 t4 t7 t8 by blast
qed

end
